theory Spec2Isabelle
  imports Main "HOL-Library.AList"
begin

section \<open>Python values, strings and dictionaries\<close>

text \<open>
  The tools of \<^verbatim>\<open>servicenow_mcp/tools\<close> build query strings and JSON payloads from typed
  parameter objects, send them with \<^verbatim>\<open>requests\<close> and reshape the reply. Values that end up
  in a payload, in the query parameters or in a returned dictionary are Python strings,
  integers, booleans, \<^verbatim>\<open>None\<close>, lists and dictionaries. A dictionary is an association
  list in insertion order; \<^verbatim>\<open>d[k] = v\<close> is \<^const>\<open>AList.update\<close>, which overwrites in
  place or appends, as a Python dictionary does.
\<close>

datatype pyval =
    PStr string
  | PInt int
  | PBool bool
  | PNone
  | PList "pyval list"
  | PDict "(string \<times> pyval) list"

type_synonym pydict = "(string \<times> pyval) list"

text \<open>A record of a ServiceNow table, as the Table API returns it: field names to strings.\<close>

type_synonym sn_record = "(string \<times> string) list"

text \<open>Truthiness of an \<^verbatim>\<open>Optional[str]\<close>: \<^verbatim>\<open>None\<close> and the empty string are falsy.\<close>

fun truthy :: "string option \<Rightarrow> bool" where
  "truthy None = False"
| "truthy (Some s) = (s \<noteq> [])"

text \<open>\<^verbatim>\<open>sep.join(parts)\<close>\<close>

fun str_join :: "string \<Rightarrow> string list \<Rightarrow> string" where
  "str_join sep [] = []"
| "str_join sep [x] = x"
| "str_join sep (x # y # ys) = x @ sep @ str_join sep (y # ys)"

text \<open>\<^verbatim>\<open>str(n)\<close> for an integer.\<close>

fun str_nat :: "nat \<Rightarrow> string" where
  "str_nat n =
     (if n < 10 then [''0123456789'' ! n]
      else str_nat (n div 10) @ [''0123456789'' ! (n mod 10)])"

declare str_nat.simps [simp del]

definition str_int :: "int \<Rightarrow> string" where
  "str_int i = (if i < 0 then ''-'' @ str_nat (nat (- i)) else str_nat (nat i))"

text \<open>\<^verbatim>\<open>str(b).lower()\<close> for a boolean.\<close>

definition str_bool_lower :: "bool \<Rightarrow> string" where
  "str_bool_lower b = (if b then ''true'' else ''false'')"

text \<open>\<^verbatim>\<open>d.get(k)\<close> on a record, as a payload value: a missing key gives \<^verbatim>\<open>None\<close>.\<close>

definition get_val :: "sn_record \<Rightarrow> string \<Rightarrow> pyval" where
  "get_val r k = (case map_of r k of None \<Rightarrow> PNone | Some v \<Rightarrow> PStr v)"

text \<open>\<^verbatim>\<open>d.get(k, default)\<close> on a record.\<close>

definition get_default :: "sn_record \<Rightarrow> string \<Rightarrow> string \<Rightarrow> string" where
  "get_default r k d = (case map_of r k of None \<Rightarrow> d | Some v \<Rightarrow> v)"

section \<open>The HTTP collaborator, the logger and the configuration\<close>

text \<open>
  A call of \<^verbatim>\<open>requests.get/post/patch\<close> followed by \<^verbatim>\<open>raise_for_status()\<close> and
  \<^verbatim>\<open>response.json().get("result", default)\<close> either raises a
  \<^verbatim>\<open>requests.RequestException\<close> (carrying the text \<^verbatim>\<open>str(e)\<close>) or yields the
  \<^verbatim>\<open>result\<close> member of the body. A collection endpoint answers with a list of records, an
  item endpoint (a POST, a PATCH, a GET of one record) with one record, and either may answer
  with a body that has no \<^verbatim>\<open>result\<close> member (kept as its text), for which \<^verbatim>\<open>get\<close> gives
  the default. Headers, basic authentication and the timeout come from collaborators and are
  not part of the request modelled here.

  The backend is any function of the exchanges so far and the request at hand, so that its
  answers may depend on everything that was sent before. The state threaded through the
  tools is the trace of exchanges, each request with what came back, and the
  lines written with \<^verbatim>\<open>logger.error\<close>.
\<close>

datatype http_method = GET | POST | PATCH | DELETE

record http_request =
  verb :: http_method
  url :: string
  params :: pydict
  json :: "pydict option"

datatype 'a outcome = RequestException string | Response 'a | NoResult string

text \<open>
  \<^verbatim>\<open>response.json().get("result", default)\<close> inside \<^verbatim>\<open>try\<close>: the exception text on the
  left, the result on the right.
\<close>

fun json_result :: "'a \<Rightarrow> 'a outcome \<Rightarrow> string + 'a" where
  "json_result d (RequestException e) = Inl e"
| "json_result d (Response r) = Inr r"
| "json_result d (NoResult body) = Inr d"

text \<open>What the trace keeps of a call: the exception text, or the result that came back.\<close>

datatype reply = Raised string | ResultList "sn_record list" | ResultItem sn_record | Body string

fun list_reply :: "sn_record list outcome \<Rightarrow> reply" where
  "list_reply (RequestException e) = Raised e"
| "list_reply (Response rs) = ResultList rs"
| "list_reply (NoResult body) = Body body"

fun item_reply :: "sn_record outcome \<Rightarrow> reply" where
  "item_reply (RequestException e) = Raised e"
| "item_reply (Response r) = ResultItem r"
| "item_reply (NoResult body) = Body body"

type_synonym exchange = "http_request \<times> reply"

record backend =
  table_list :: "exchange list \<Rightarrow> http_request \<Rightarrow> sn_record list outcome"
  table_item :: "exchange list \<Rightarrow> http_request \<Rightarrow> sn_record outcome"

record state =
  trace :: "exchange list"
  log :: "string list"

record ServerConfig =
  api_url :: string

definition logger_error :: "string \<Rightarrow> state \<Rightarrow> state" where
  "logger_error msg st = st\<lparr>log := log st @ [msg]\<rparr>"

definition send_list :: "backend \<Rightarrow> http_request \<Rightarrow> state \<Rightarrow> sn_record list outcome \<times> state" where
  "send_list b req st =
     (let out = table_list b (trace st) req
      in (out, st\<lparr>trace := trace st @ [(req, list_reply out)]\<rparr>))"

definition send_item :: "backend \<Rightarrow> http_request \<Rightarrow> state \<Rightarrow> sn_record outcome \<times> state" where
  "send_item b req st =
     (let out = table_item b (trace st) req
      in (out, st\<lparr>trace := trace st @ [(req, item_reply out)]\<rparr>))"

text \<open>\<^verbatim>\<open>requests.get(api_url, params=query_params, ...)\<close> on a collection.\<close>

definition requests_get :: "backend \<Rightarrow> string \<Rightarrow> pydict \<Rightarrow> state \<Rightarrow> sn_record list outcome \<times> state" where
  "requests_get b u query_params st =
     send_list b \<lparr>verb = GET, url = u, params = query_params, json = None\<rparr> st"

text \<open>\<^verbatim>\<open>requests.get(item_url, ...)\<close> on one record.\<close>

definition requests_get_item :: "backend \<Rightarrow> string \<Rightarrow> state \<Rightarrow> sn_record outcome \<times> state" where
  "requests_get_item b u st =
     send_item b \<lparr>verb = GET, url = u, params = [], json = None\<rparr> st"

text \<open>\<^verbatim>\<open>requests.post(api_url, json=data, ...)\<close>\<close>

definition requests_post :: "backend \<Rightarrow> string \<Rightarrow> pydict \<Rightarrow> state \<Rightarrow> sn_record outcome \<times> state" where
  "requests_post b u data st =
     send_item b \<lparr>verb = POST, url = u, params = [], json = Some data\<rparr> st"

text \<open>\<^verbatim>\<open>requests.patch(api_url, json=data, ...)\<close>\<close>

definition requests_patch :: "backend \<Rightarrow> string \<Rightarrow> pydict \<Rightarrow> state \<Rightarrow> sn_record outcome \<times> state" where
  "requests_patch b u data st =
     send_item b \<lparr>verb = PATCH, url = u, params = [], json = Some data\<rparr> st"

text \<open>\<^verbatim>\<open>requests.delete(api_url, ...)\<close>\<close>

definition requests_delete :: "backend \<Rightarrow> string \<Rightarrow> state \<Rightarrow> sn_record outcome \<times> state" where
  "requests_delete b u st =
     send_item b \<lparr>verb = DELETE, url = u, params = [], json = None\<rparr> st"

section \<open>Identifier resolution\<close>

text \<open>
  \<^verbatim>\<open>len(s) == 32 and all(c in alphabet for c in s)\<close>: the test that makes a resolver return
  its input as it is.
\<close>

definition looks_like_sys_id :: "string \<Rightarrow> string \<Rightarrow> bool" where
  "looks_like_sys_id alphabet s \<longleftrightarrow> length s = 32 \<and> list_all (\<lambda>c. c \<in> set alphabet) s"

text \<open>
  The loop \<^verbatim>\<open>for field in [...]\<close> that the three resolvers share word for word: one GET per
  candidate field with \<^verbatim>\<open>sysparm_limit\<close> \<^verbatim>\<open>"1"\<close>; a non-empty result returns
  \<^verbatim>\<open>result[0].get("sys_id")\<close>; an empty result goes on to the next field; a
  \<^verbatim>\<open>RequestException\<close> is logged and the loop continues. After the last field the resolver
  returns \<^verbatim>\<open>None\<close>. The resolvers differ in the table, in the query of a field and in the
  text of the log line.
\<close>

fun lookup_fields ::
  "backend \<Rightarrow> string \<Rightarrow> (string \<Rightarrow> string) \<Rightarrow> (string \<Rightarrow> string \<Rightarrow> string) \<Rightarrow> string list \<Rightarrow> state
     \<Rightarrow> string option \<times> state" where
  "lookup_fields b u query_of log_of [] st = (None, st)"
| "lookup_fields b u query_of log_of (field # rest) st =
     (let query_params = [(''sysparm_query'', PStr (query_of field)), (''sysparm_limit'', PStr ''1'')];
          (out, st1) = requests_get b u query_params st
      in case json_result [] out of
           Inr [] \<Rightarrow> lookup_fields b u query_of log_of rest st1
         | Inr (r # rs) \<Rightarrow> (map_of r ''sys_id'', st1)
         | Inl e \<Rightarrow> lookup_fields b u query_of log_of rest (logger_error (log_of field e) st1))"

text \<open>\<^verbatim>\<open>request_tools._resolve_user_id\<close>: lower-case hexadecimal digits only.\<close>

definition request_resolve_user_id :: "backend \<Rightarrow> ServerConfig \<Rightarrow> string \<Rightarrow> state \<Rightarrow> string option \<times> state" where
  "request_resolve_user_id b config user_identifier st =
     (if looks_like_sys_id ''0123456789abcdef'' user_identifier then (Some user_identifier, st)
      else lookup_fields b (api_url config @ ''/table/sys_user'')
             (\<lambda>field. field @ ''='' @ user_identifier)
             (\<lambda>field e. ''Failed to resolve user ID for '' @ field @ ''='' @ user_identifier @ '': '' @ e)
             [''user_name'', ''email''] st)"

text \<open>\<^verbatim>\<open>record_tools._resolve_user_id\<close>: hexadecimal digits of either case.\<close>

definition record_resolve_user_id :: "backend \<Rightarrow> ServerConfig \<Rightarrow> string \<Rightarrow> state \<Rightarrow> string option \<times> state" where
  "record_resolve_user_id b config user_identifier st =
     (if looks_like_sys_id ''0123456789abcdefABCDEF'' user_identifier then (Some user_identifier, st)
      else lookup_fields b (api_url config @ ''/table/sys_user'')
             (\<lambda>field. field @ ''='' @ user_identifier)
             (\<lambda>field e. ''Failed to resolve user ID for '' @ field @ ''='' @ user_identifier @ '': '' @ e)
             [''user_name'', ''email''] st)"

text \<open>
  \<^verbatim>\<open>request_tools._resolve_catalog_item_id\<close>: the query is an equality on \<^verbatim>\<open>name\<close> and on
  \<^verbatim>\<open>sys_id\<close> and a \<^verbatim>\<open>LIKE\<close> on \<^verbatim>\<open>short_description\<close>; the log line always shows
  \<^verbatim>\<open>field=identifier\<close>.
\<close>

definition resolve_catalog_item_id :: "backend \<Rightarrow> ServerConfig \<Rightarrow> string \<Rightarrow> state \<Rightarrow> string option \<times> state" where
  "resolve_catalog_item_id b config catalog_item_identifier st =
     (if looks_like_sys_id ''0123456789abcdef'' catalog_item_identifier then (Some catalog_item_identifier, st)
      else lookup_fields b (api_url config @ ''/table/sc_cat_item'')
             (\<lambda>field. if field \<noteq> ''short_description'' then field @ ''='' @ catalog_item_identifier
                       else field @ ''LIKE'' @ catalog_item_identifier)
             (\<lambda>field e. ''Failed to resolve catalog item ID for '' @ field @ ''='' @ catalog_item_identifier @ '': '' @ e)
             [''name'', ''sys_id'', ''short_description''] st)"

section \<open>Idioms shared by the tools\<close>

text \<open>\<^verbatim>\<open>if value: parts.append(f(value))\<close> for an optional string parameter.\<close>

fun opt_clause :: "(string \<Rightarrow> 'a) \<Rightarrow> string option \<Rightarrow> 'a list" where
  "opt_clause f None = []"
| "opt_clause f (Some s) = (if s = [] then [] else [f s])"

text \<open>\<^verbatim>\<open>if value: data[key] = value\<close> for an optional string parameter.\<close>

fun opt_put :: "string \<Rightarrow> string option \<Rightarrow> pydict \<Rightarrow> pydict" where
  "opt_put k None data = data"
| "opt_put k (Some s) data = (if s = [] then data else AList.update k (PStr s) data)"

text \<open>\<^verbatim>\<open>if query_parts: query_params["sysparm_query"] = "^".join(query_parts)\<close>\<close>

definition with_query :: "string list \<Rightarrow> pydict \<Rightarrow> pydict" where
  "with_query query_parts query_params =
     (if query_parts = [] then query_params
      else AList.update ''sysparm_query'' (PStr (str_join ''^'' query_parts)) query_params)"

text \<open>An optional string as a payload value, and a record as a value of a returned dictionary.\<close>

fun opt_val :: "string option \<Rightarrow> pyval" where
  "opt_val None = PNone"
| "opt_val (Some s) = PStr s"

definition record_val :: "sn_record \<Rightarrow> pyval" where
  "record_val r = PDict (map (\<lambda>(k, v). (k, PStr v)) r)"

text \<open>
  The pydantic response models have \<^verbatim>\<open>success\<close> and \<^verbatim>\<open>message\<close> in common; each adds two
  optional fields.
\<close>

record ToolResponse =
  success :: bool
  message :: string

record RequestAndCatalogItemResponse = ToolResponse +
  sys_id :: "string option"
  number :: "string option"

record ProblemResponse = ToolResponse +
  problem_id :: "string option"
  problem_number :: "string option"

record AssetResponse = ToolResponse +
  asset_id :: "string option"
  asset_tag :: "string option"

section \<open>request\_tools\<close>

record ListItemRequestsParams =
  lir_limit :: int
  lir_offset :: int
  lir_requested_for :: "string option"
  lir_cat_item :: "string option"
  lir_number :: "string option"
  lir_short_description :: "string option"

text \<open>
  The filter of \<^verbatim>\<open>list_item_requests\<close> for a user or a catalog item: the resolved id when
  the resolver found one, else the parameter as it was given
  (\<^verbatim>\<open># Try direct match if it's already a sys_id\<close>).
\<close>

definition resolved_or_raw :: "string \<Rightarrow> string \<Rightarrow> string option \<Rightarrow> string" where
  "resolved_or_raw field given resolved =
     (if truthy resolved then field @ ''='' @ the resolved else field @ ''='' @ given)"

definition list_item_requests :: "backend \<Rightarrow> ServerConfig \<Rightarrow> ListItemRequestsParams \<Rightarrow> state \<Rightarrow> pydict \<times> state" where
  "list_item_requests b config p st =
     (let u = api_url config @ ''/table/sc_req_item'';
          query_params = [(''sysparm_limit'', PStr (str_int (lir_limit p))),
                          (''sysparm_offset'', PStr (str_int (lir_offset p))),
                          (''sysparm_display_value'', PStr ''true'')];
          (parts1, st1) =
            (if truthy (lir_requested_for p) then
               (let (user_id, s) = request_resolve_user_id b config (the (lir_requested_for p)) st
                in ([resolved_or_raw ''requested_for'' (the (lir_requested_for p)) user_id], s))
             else ([], st));
          (parts2, st2) =
            (if truthy (lir_cat_item p) then
               (let (catalog_item_id, s) = resolve_catalog_item_id b config (the (lir_cat_item p)) st1
                in (parts1 @ [resolved_or_raw ''cat_item'' (the (lir_cat_item p)) catalog_item_id], s))
             else (parts1, st1));
          query_parts = parts2
            @ opt_clause (\<lambda>v. ''number='' @ v) (lir_number p)
            @ opt_clause (\<lambda>v. ''short_descriptionLIKE'' @ v) (lir_short_description p);
          (out, st3) = requests_get b u (with_query query_parts query_params) st2
      in case json_result [] out of
           Inr result \<Rightarrow>
             ([(''success'', PBool True),
               (''message'', PStr (''Found '' @ str_nat (length result) @ '' item requests'')),
               (''item_requests'', PList (map record_val result)),
               (''count'', PInt (int (length result)))], st3)
         | Inl e \<Rightarrow>
             ([(''success'', PBool False),
               (''message'', PStr (''Failed to list item requests: '' @ e))],
              logger_error (''Failed to list item requests: '' @ e) st3))"

record CreateItemRequestParams =
  cir_number :: "string option"
  cir_cat_item :: string
  cir_requested_for :: string
  cir_quantity :: string
  cir_request :: "string option"
  cir_state :: string
  cir_short_description :: string

definition create_item_request ::
  "backend \<Rightarrow> ServerConfig \<Rightarrow> CreateItemRequestParams \<Rightarrow> state \<Rightarrow> RequestAndCatalogItemResponse \<times> state" where
  "create_item_request b config p st =
     (let u = api_url config @ ''/table/sc_req_item'';
          body0 = [(''state'', PStr (cir_state p)),
                   (''short_description'', PStr (cir_short_description p)),
                   (''quantity'', PStr (cir_quantity p))];
          body1 = opt_put ''number'' (cir_number p) body0;
          (user_id, st1) =
            (if cir_requested_for p \<noteq> [] then request_resolve_user_id b config (cir_requested_for p) st
             else (None, st))
      in if cir_requested_for p \<noteq> [] \<and> \<not> truthy user_id then
           (\<lparr>success = False, message = ''Could not resolve user: '' @ cir_requested_for p,
             sys_id = None, number = None\<rparr>, st1)
         else
           (let body2 = (if cir_requested_for p \<noteq> [] then AList.update ''requested_for'' (opt_val user_id) body1
                         else body1);
                (catalog_item_id, st2) =
                  (if cir_cat_item p \<noteq> [] then resolve_catalog_item_id b config (cir_cat_item p) st1
                   else (None, st1))
            in if cir_cat_item p \<noteq> [] \<and> \<not> truthy catalog_item_id then
                 (\<lparr>success = False, message = ''Could not resolve catalog item: '' @ cir_cat_item p,
                   sys_id = None, number = None\<rparr>, st2)
               else
                 (let request_body = (if cir_cat_item p \<noteq> []
                                      then AList.update ''cat_item'' (opt_val catalog_item_id) body2
                                      else body2);
                      (out, st3) = requests_post b u request_body st2
                  in case json_result [] out of
                       Inr result \<Rightarrow>
                         (\<lparr>success = True, message = ''Item request created successfully'',
                           sys_id = map_of result ''sys_id'', number = map_of result ''number''\<rparr>, st3)
                     | Inl e \<Rightarrow>
                         (\<lparr>success = False, message = ''Failed to create item request: '' @ e,
                           sys_id = None, number = None\<rparr>,
                          logger_error (''Failed to create item request: '' @ e) st3))))"

record CreateRequestParams =
  cr_requested_for :: string
  cr_state :: string
  cr_approval :: string

definition create_request ::
  "backend \<Rightarrow> ServerConfig \<Rightarrow> CreateRequestParams \<Rightarrow> state \<Rightarrow> RequestAndCatalogItemResponse \<times> state" where
  "create_request b config p st =
     (let u = api_url config @ ''/table/sc_request'';
          body0 = [(''state'', PStr (cr_state p)), (''approval'', PStr (cr_approval p))];
          (user_id, st1) =
            (if cr_requested_for p \<noteq> [] then request_resolve_user_id b config (cr_requested_for p) st
             else (None, st))
      in if cr_requested_for p \<noteq> [] \<and> \<not> truthy user_id then
           (\<lparr>success = False, message = ''Could not resolve user: '' @ cr_requested_for p,
             sys_id = None, number = None\<rparr>, st1)
         else
           (let request_body = (if cr_requested_for p \<noteq> []
                                then AList.update ''requested_for'' (opt_val user_id) body0
                                else body0);
                (out, st2) = requests_post b u request_body st1
            in case json_result [] out of
                 Inr result \<Rightarrow>
                   (\<lparr>success = True, message = ''Request created successfully'',
                     sys_id = map_of result ''sys_id'', number = None\<rparr>, st2)
               | Inl e \<Rightarrow>
                   (\<lparr>success = False, message = ''Failed to create request: '' @ e,
                     sys_id = None, number = None\<rparr>,
                    logger_error (''Failed to create request: '' @ e) st2)))"

section \<open>record\_tools\<close>

record CreateProblemParams =
  cp_short_description :: string
  cp_urgency :: "string option"
  cp_impact :: "string option"
  cp_assigned_to :: "string option"
  cp_fields :: "(string \<times> string) list option"

text \<open>A Python exception that no handler of the tool catches.\<close>

datatype py_error = TypeError

text \<open>\<^verbatim>\<open>for field, value in params.fields.items(): data[field] = value\<close>\<close>

fun put_fields :: "(string \<times> string) list \<Rightarrow> pydict \<Rightarrow> pydict" where
  "put_fields [] data = data"
| "put_fields ((field, v) # rest) data = put_fields rest (AList.update field (PStr v) data)"

text \<open>
  \<^verbatim>\<open>create_problem\<close>. The success message is built with \<^verbatim>\<open>+\<close> on
  \<^verbatim>\<open>result.get("sys_id")\<close>, which raises \<^verbatim>\<open>TypeError\<close> when the reply has no
  \<^verbatim>\<open>sys_id\<close>; the handler catches \<^verbatim>\<open>requests.RequestException\<close> only.
\<close>

definition create_problem ::
  "backend \<Rightarrow> ServerConfig \<Rightarrow> CreateProblemParams \<Rightarrow> state \<Rightarrow> (py_error + ProblemResponse) \<times> state" where
  "create_problem b config p st =
     (let u = api_url config @ ''/table/problem'';
          data0 = [(''short_description'', PStr (cp_short_description p)),
                   (''urgency'', opt_val (cp_urgency p)),
                   (''impact'', opt_val (cp_impact p))];
          (user_id, st1) =
            (if truthy (cp_assigned_to p) then record_resolve_user_id b config (the (cp_assigned_to p)) st
             else (None, st))
      in if truthy (cp_assigned_to p) \<and> \<not> truthy user_id then
           (Inr \<lparr>success = False, message = ''Could not resolve user: '' @ the (cp_assigned_to p),
                 problem_id = None, problem_number = None\<rparr>, st1)
         else
           (let data1 = (if truthy (cp_assigned_to p) then AList.update ''assigned_to'' (opt_val user_id) data0
                         else data0);
                data = (case cp_fields p of None \<Rightarrow> data1 | Some fs \<Rightarrow> put_fields fs data1);
                (out, st2) = requests_post b u data st1
            in case json_result [] out of
                 Inr result \<Rightarrow>
                   (case map_of result ''sys_id'' of
                      None \<Rightarrow> (Inl TypeError, st2)
                    | Some i \<Rightarrow>
                        (Inr \<lparr>success = True,
                              message = ''Problem created successfully. The sys_id of the problem is: '' @ i,
                              problem_id = Some i, problem_number = map_of result ''number''\<rparr>, st2))
               | Inl e \<Rightarrow>
                   (Inr \<lparr>success = False, message = ''Failed to create problem: '' @ e,
                         problem_id = None, problem_number = None\<rparr>,
                    logger_error (''Failed to create problem: '' @ e) st2)))"

section \<open>asset\_tools\<close>

text \<open>
  \<^verbatim>\<open>asset_tools\<close> imports \<^verbatim>\<open>resolve_user_id\<close> and \<^verbatim>\<open>resolve_asset_id\<close> from
  \<^verbatim>\<open>servicenow_mcp.utils.resolvers\<close>, a module that is not among the sources at hand. The
  tools below take the two resolvers as parameters: any function from the configuration, the
  identifier and the state to an optional id and a state.
\<close>

type_synonym resolver = "ServerConfig \<Rightarrow> string \<Rightarrow> state \<Rightarrow> string option \<times> state"

record ListHardwareAssetsParams =
  lha_limit :: int
  lha_offset :: int
  lha_assigned_to :: "string option"
  lha_name :: "string option"
  lha_query :: "string option"

definition list_hardware_assets ::
  "resolver \<Rightarrow> backend \<Rightarrow> ServerConfig \<Rightarrow> ListHardwareAssetsParams \<Rightarrow> state \<Rightarrow> pydict \<times> state" where
  "list_hardware_assets resolve_user_id b config p st =
     (let u = api_url config @ ''/table/alm_hardware'';
          query_params = [(''sysparm_limit'', PStr (str_int (lha_limit p))),
                          (''sysparm_offset'', PStr (str_int (lha_offset p))),
                          (''sysparm_display_value'', PStr ''true'')];
          (parts1, st1) =
            (if truthy (lha_assigned_to p) then
               (let (user_id, s) = resolve_user_id config (the (lha_assigned_to p)) st
                in ([resolved_or_raw ''assigned_to'' (the (lha_assigned_to p)) user_id], s))
             else ([], st));
          query_parts = parts1
            @ opt_clause (\<lambda>v. ''display_nameLIKE'' @ v) (lha_name p)
            @ opt_clause (\<lambda>v. ''^asset_tagLIKE'' @ v @ ''^ORdisplay_nameLIKE'' @ v
                                 @ ''^ORserial_numberLIKE'' @ v @ ''^ORmodelLIKE'' @ v) (lha_query p);
          (out, st2) = requests_get b u (with_query query_parts query_params) st1
      in case json_result [] out of
           Inr result \<Rightarrow>
             ([(''success'', PBool True),
               (''message'', PStr (''Found '' @ str_nat (length result) @ '' hardware assets'')),
               (''hardware_assets'', PList (map record_val result)),
               (''count'', PInt (int (length result)))], st2)
         | Inl e \<Rightarrow>
             ([(''success'', PBool False),
               (''message'', PStr (''Failed to list hardware assets: '' @ e))],
              logger_error (''Failed to list hardware assets: '' @ e) st2))"

record CreateAssetParams =
  ca_asset_tag :: string
  ca_display_name :: string
  ca_model :: "string option"
  ca_serial_number :: "string option"
  ca_assigned_to :: "string option"
  ca_location :: "string option"
  ca_cost :: "string option"
  ca_purchase_date :: "string option"
  ca_warranty_expiration :: "string option"
  ca_category :: "string option"
  ca_subcategory :: "string option"
  ca_manufacturer :: "string option"
  ca_model_category :: "string option"
  ca_state :: "string option"
  ca_substatus :: "string option"
  ca_comments :: "string option"

text \<open>The fields that \<^verbatim>\<open>create_asset\<close> copies after the assigned user, in the order of the source.\<close>

definition create_asset_rest :: "CreateAssetParams \<Rightarrow> pydict \<Rightarrow> pydict" where
  "create_asset_rest p data =
     opt_put ''comments'' (ca_comments p)
      (opt_put ''substatus'' (ca_substatus p)
      (opt_put ''state'' (ca_state p)
      (opt_put ''model_category'' (ca_model_category p)
      (opt_put ''manufacturer'' (ca_manufacturer p)
      (opt_put ''subcategory'' (ca_subcategory p)
      (opt_put ''category'' (ca_category p)
      (opt_put ''warranty_expiration'' (ca_warranty_expiration p)
      (opt_put ''purchase_date'' (ca_purchase_date p)
      (opt_put ''cost'' (ca_cost p)
      (opt_put ''location'' (ca_location p) data))))))))))"

definition create_asset ::
  "resolver \<Rightarrow> backend \<Rightarrow> ServerConfig \<Rightarrow> CreateAssetParams \<Rightarrow> state \<Rightarrow> AssetResponse \<times> state" where
  "create_asset resolve_user_id b config p st =
     (let u = api_url config @ ''/table/alm_asset'';
          data0 = [(''asset_tag'', PStr (ca_asset_tag p)), (''display_name'', PStr (ca_display_name p))];
          data1 = opt_put ''serial_number'' (ca_serial_number p) (opt_put ''model'' (ca_model p) data0);
          (user_id, st1) =
            (if truthy (ca_assigned_to p) then resolve_user_id config (the (ca_assigned_to p)) st
             else (None, st))
      in if truthy (ca_assigned_to p) \<and> \<not> truthy user_id then
           (\<lparr>success = False, message = ''Could not resolve user: '' @ the (ca_assigned_to p),
             asset_id = None, asset_tag = None\<rparr>, st1)
         else
           (let data2 = (if truthy (ca_assigned_to p) then AList.update ''assigned_to'' (opt_val user_id) data1
                         else data1);
                data = create_asset_rest p data2;
                (out, st2) = requests_post b u data st1
            in case json_result [] out of
                 Inr result \<Rightarrow>
                   (\<lparr>success = True, message = ''Asset created successfully'',
                     asset_id = map_of result ''sys_id'', asset_tag = map_of result ''asset_tag''\<rparr>, st2)
               | Inl e \<Rightarrow>
                   (\<lparr>success = False, message = ''Failed to create asset: '' @ e,
                     asset_id = None, asset_tag = None\<rparr>,
                    logger_error (''Failed to create asset: '' @ e) st2)))"

record ListAssetsParams =
  la_limit :: int
  la_offset :: int
  la_assigned_to :: "string list option"
  la_location :: "string option"
  la_name :: "string option"
  la_query :: "string option"

text \<open>
  The loop of \<^verbatim>\<open>list_assets\<close> over \<^verbatim>\<open>params.assigned_to\<close>: every entry is resolved, and
  the ids that are truthy are collected in order.
\<close>

fun resolve_users :: "resolver \<Rightarrow> ServerConfig \<Rightarrow> string list \<Rightarrow> state \<Rightarrow> string list \<times> state" where
  "resolve_users resolve_user_id config [] st = ([], st)"
| "resolve_users resolve_user_id config (user # rest) st =
     (let (user_id, st1) = resolve_user_id config user st;
          (user_ids, st2) = resolve_users resolve_user_id config rest st1
      in (opt_clause (\<lambda>v. v) user_id @ user_ids, st2))"

definition list_assets ::
  "resolver \<Rightarrow> backend \<Rightarrow> ServerConfig \<Rightarrow> ListAssetsParams \<Rightarrow> state \<Rightarrow> pydict \<times> state" where
  "list_assets resolve_user_id b config p st =
     (let u = api_url config @ ''/table/alm_asset'';
          query_params = [(''sysparm_limit'', PStr (str_int (la_limit p))),
                          (''sysparm_offset'', PStr (str_int (la_offset p))),
                          (''sysparm_display_value'', PStr ''true'')];
          (parts1, st1) =
            (case la_assigned_to p of
               None \<Rightarrow> ([], st)
             | Some [] \<Rightarrow> ([], st)
             | Some users \<Rightarrow>
                 (let (user_ids, s) = resolve_users resolve_user_id config users st
                  in ([''assigned_toIN'' @ str_join '','' user_ids], s)));
          query_parts = parts1
            @ opt_clause (\<lambda>v. ''location='' @ v) (la_location p)
            @ opt_clause (\<lambda>v. ''display_nameLIKE'' @ v) (la_name p)
            @ opt_clause (\<lambda>v. ''^asset_tagLIKE'' @ v @ ''^ORdisplay_nameLIKE'' @ v
                                 @ ''^ORserial_numberLIKE'' @ v @ ''^ORmodelLIKE'' @ v
                                 @ ''^ORshort_descriptionLIKE'' @ v) (la_query p);
          (out, st2) = requests_get b u (with_query query_parts query_params) st1
      in case json_result [] out of
           Inr result \<Rightarrow>
             ([(''success'', PBool True),
               (''message'', PStr (''Found '' @ str_nat (length result) @ '' assets'')),
               (''assets'', PList (map record_val result)),
               (''count'', PInt (int (length result)))], st2)
         | Inl e \<Rightarrow>
             ([(''success'', PBool False),
               (''message'', PStr (''Failed to list assets: '' @ e))],
              logger_error (''Failed to list assets: '' @ e) st2))"

record DeleteAssetParams =
  da_asset_id :: string
  da_reason :: "string option"

definition delete_asset ::
  "resolver \<Rightarrow> backend \<Rightarrow> ServerConfig \<Rightarrow> DeleteAssetParams \<Rightarrow> state \<Rightarrow> AssetResponse \<times> state" where
  "delete_asset resolve_asset_id b config p st =
     (let (asset_sys_id, st1) = resolve_asset_id config (da_asset_id p) st
      in if \<not> truthy asset_sys_id then
           (\<lparr>success = False, message = ''Could not find asset: '' @ da_asset_id p,
             asset_id = None, asset_tag = None\<rparr>, st1)
         else
           (let u = api_url config @ ''/table/alm_asset/'' @ the asset_sys_id;
                (out, st2) = requests_delete b u st1
            in case out of
                 RequestException e \<Rightarrow>
                   (\<lparr>success = False, message = ''Failed to delete asset: '' @ e,
                     asset_id = None, asset_tag = None\<rparr>,
                    logger_error (''Failed to delete asset: '' @ e) st2)
               | _ \<Rightarrow>
                   (\<lparr>success = True, message = ''Asset deleted successfully'',
                     asset_id = asset_sys_id, asset_tag = None\<rparr>, st2)))"

record TransferAssetParams =
  ta_asset_id :: string
  ta_new_assigned_to :: string
  ta_transfer_reason :: "string option"
  ta_comments :: "string option"

definition transfer_asset ::
  "resolver \<Rightarrow> resolver \<Rightarrow> backend \<Rightarrow> ServerConfig \<Rightarrow> TransferAssetParams \<Rightarrow> state \<Rightarrow> AssetResponse \<times> state" where
  "transfer_asset resolve_asset_id resolve_user_id b config p st =
     (let (asset_sys_id, st1) = resolve_asset_id config (ta_asset_id p) st
      in if \<not> truthy asset_sys_id then
           (\<lparr>success = False, message = ''Could not find asset: '' @ ta_asset_id p,
             asset_id = None, asset_tag = None\<rparr>, st1)
         else
           (let (new_user_id, st2) = resolve_user_id config (ta_new_assigned_to p) st1
            in if \<not> truthy new_user_id then
                 (\<lparr>success = False, message = ''Could not resolve user: '' @ ta_new_assigned_to p,
                   asset_id = None, asset_tag = None\<rparr>, st2)
               else
                 (let u = api_url config @ ''/table/alm_asset/'' @ the asset_sys_id;
                      transfer_comment = ''Asset transferred to '' @ ta_new_assigned_to p
                        @ concat (opt_clause (\<lambda>v. '' - Reason: '' @ v) (ta_transfer_reason p))
                        @ concat (opt_clause (\<lambda>v. '' - '' @ v) (ta_comments p));
                      data = [(''assigned_to'', opt_val new_user_id), (''comments'', PStr transfer_comment)];
                      (out, st3) = requests_patch b u data st2
                  in case json_result [] out of
                       Inr result \<Rightarrow>
                         (\<lparr>success = True,
                           message = ''Asset transferred successfully to '' @ ta_new_assigned_to p,
                           asset_id = map_of result ''sys_id'', asset_tag = map_of result ''asset_tag''\<rparr>, st3)
                     | Inl e \<Rightarrow>
                         (\<lparr>success = False, message = ''Failed to transfer asset: '' @ e,
                           asset_id = None, asset_tag = None\<rparr>,
                          logger_error (''Failed to transfer asset: '' @ e) st3))))"

section \<open>knowledge\_base\<close>

record ListKnowledgeBasesParams =
  lkb_limit :: int
  lkb_offset :: int
  lkb_active :: "bool option"
  lkb_query :: "string option"

text \<open>
  One entry of the list that \<^verbatim>\<open>list_knowledge_bases\<close> returns. The owner and the managers
  are read only when the field is a dictionary; a record of strings gives the empty string.
\<close>

definition kb_entry :: "sn_record \<Rightarrow> pyval" where
  "kb_entry kb_item =
     PDict [(''id'', PStr (get_default kb_item ''sys_id'' [])),
            (''title'', PStr (get_default kb_item ''title'' [])),
            (''description'', PStr (get_default kb_item ''description'' [])),
            (''owner'', PStr []),
            (''managers'', PStr []),
            (''active'', PBool (map_of kb_item ''active'' = Some ''true'')),
            (''created'', PStr (get_default kb_item ''sys_created_on'' [])),
            (''updated'', PStr (get_default kb_item ''sys_updated_on'' []))]"

definition list_knowledge_bases ::
  "backend \<Rightarrow> ServerConfig \<Rightarrow> ListKnowledgeBasesParams \<Rightarrow> state \<Rightarrow> pydict \<times> state" where
  "list_knowledge_bases b config p st =
     (let u = api_url config @ ''/table/kb_knowledge_base'';
          query_params = [(''sysparm_limit'', PInt (lkb_limit p)),
                          (''sysparm_offset'', PInt (lkb_offset p)),
                          (''sysparm_display_value'', PStr ''true'')];
          query_parts =
            (case lkb_active p of None \<Rightarrow> [] | Some a \<Rightarrow> [''active='' @ str_bool_lower a])
            @ opt_clause (\<lambda>v. ''titleLIKE'' @ v @ ''^ORdescriptionLIKE'' @ v) (lkb_query p);
          (out, st1) = requests_get b u (with_query query_parts query_params) st
      in case out of
           Response result \<Rightarrow>
             ([(''success'', PBool True),
               (''message'', PStr (''Found '' @ str_nat (length result) @ '' knowledge bases'')),
               (''knowledge_bases'', PList (map kb_entry result)),
               (''count'', PInt (int (length result))),
               (''limit'', PInt (lkb_limit p)),
               (''offset'', PInt (lkb_offset p))], st1)
         | NoResult body \<Rightarrow>
             ([(''success'', PBool False),
               (''message'', PStr ''Unexpected response format''),
               (''knowledge_bases'', PList []),
               (''count'', PInt 0),
               (''limit'', PInt (lkb_limit p)),
               (''offset'', PInt (lkb_offset p))],
              logger_error (''Unexpected response format: '' @ body) st1)
         | RequestException e \<Rightarrow>
             ([(''success'', PBool False),
               (''message'', PStr (''Failed to list knowledge bases: '' @ e)),
               (''knowledge_bases'', PList []),
               (''count'', PInt 0),
               (''limit'', PInt (lkb_limit p)),
               (''offset'', PInt (lkb_offset p))],
              logger_error (''Failed to list knowledge bases: '' @ e) st1))"

section \<open>hardware\_ordering\<close>

record SubmitHardwareOrderParams =
  sho_catalog_item_id :: string
  sho_requested_for :: string
  sho_quantity :: int
  sho_justification :: "string option"
  sho_priority :: "string option"
  sho_requested_delivery_date :: "string option"
  sho_special_instructions :: "string option"
  sho_cost_center :: "string option"
  sho_project_code :: "string option"

text \<open>An optional string inside an f-string: \<^verbatim>\<open>None\<close> prints as \<^verbatim>\<open>None\<close>.\<close>

fun fmt_opt :: "string option \<Rightarrow> string" where
  "fmt_opt None = ''None''"
| "fmt_opt (Some s) = s"

text \<open>\<^verbatim>\<open>value or ""\<close>\<close>

fun or_empty :: "string option \<Rightarrow> string" where
  "or_empty None = []"
| "or_empty (Some s) = s"

text \<open>
  \<^verbatim>\<open>submit_hardware_order\<close>: the whole body is one \<^verbatim>\<open>try\<close>; the three calls are the GET
  of the catalog item, the POST of the service request and the POST of the requested item.
\<close>

definition hardware_order_failed :: "string \<Rightarrow> state \<Rightarrow> pydict \<times> state" where
  "hardware_order_failed e st =
     ([(''success'', PBool False),
       (''message'', PStr (''Failed to submit hardware order: '' @ e))],
      logger_error (''Failed to submit hardware order: '' @ e) st)"

definition submit_hardware_order ::
  "backend \<Rightarrow> ServerConfig \<Rightarrow> SubmitHardwareOrderParams \<Rightarrow> state \<Rightarrow> pydict \<times> state" where
  "submit_hardware_order b config p st =
     (let item_api_url = api_url config @ ''/table/sc_cat_item/'' @ sho_catalog_item_id p;
          (out1, st1) = requests_get_item b item_api_url st
      in case json_result [] out1 of
           Inl e \<Rightarrow> hardware_order_failed e st1
         | Inr catalog_item \<Rightarrow>
             if catalog_item = [] then
               ([(''success'', PBool False),
                 (''message'', PStr (''Catalog item '' @ sho_catalog_item_id p @ '' not found''))], st1)
             else
               (let item_name = get_default catalog_item ''name'' ''Hardware Item'';
                    request_data0 =
                      [(''requested_for'', PStr (sho_requested_for p)),
                       (''short_description'', PStr (''Hardware Order: '' @ item_name)),
                       (''description'', PStr (''Order for '' @ str_int (sho_quantity p) @ ''x '' @ item_name)),
                       (''priority'', opt_val (sho_priority p)),
                       (''state'', PStr ''1''),
                       (''special_instructions'', PStr (or_empty (sho_special_instructions p)))];
                    request_data =
                      opt_put ''delivery_date'' (sho_requested_delivery_date p)
                        (opt_put ''justification'' (sho_justification p) request_data0);
                    (out2, st2) = requests_post b (api_url config @ ''/table/sc_request'') request_data st1
                in case json_result [] out2 of
                     Inl e \<Rightarrow> hardware_order_failed e st2
                   | Inr service_request \<Rightarrow>
                       (let request_sys_id = map_of service_request ''sys_id'';
                            request_number = map_of service_request ''number'';
                            item_data0 =
                              [(''request'', opt_val request_sys_id),
                               (''cat_item'', PStr (sho_catalog_item_id p)),
                               (''quantity'', PInt (sho_quantity p)),
                               (''price'', PStr (get_default catalog_item ''price'' ''0'')),
                               (''recurring_price'', PStr (get_default catalog_item ''recurring_price'' ''0'')),
                               (''state'', PStr ''1'')];
                            item_data =
                              opt_put ''project_code'' (sho_project_code p)
                                (opt_put ''cost_center'' (sho_cost_center p) item_data0);
                            (out3, st3) = requests_post b (api_url config @ ''/table/sc_req_item'') item_data st2
                        in case json_result [] out3 of
                             Inl e \<Rightarrow> hardware_order_failed e st3
                           | Inr request_item \<Rightarrow>
                               ([(''success'', PBool True),
                                 (''message'', PStr (''Hardware order '' @ fmt_opt request_number
                                                     @ '' submitted successfully'')),
                                 (''request_id'', opt_val request_sys_id),
                                 (''request_number'', opt_val request_number),
                                 (''item_id'', get_val request_item ''sys_id''),
                                 (''catalog_item'', get_val catalog_item ''name''),
                                 (''quantity'', PInt (sho_quantity p)),
                                 (''estimated_cost'', PStr (get_default catalog_item ''price'' ''TBD'')),
                                 (''status'', PStr ''Pending Approval''),
                                 (''requested_for'', PStr (sho_requested_for p))], st3))))"

section \<open>Vocabulary of the properties\<close>

text \<open>
  The GET that a resolver sends for one candidate field: the query of the field and
  \<^verbatim>\<open>sysparm_limit\<close> \<^verbatim>\<open>"1"\<close>.
\<close>

definition lookup_request :: "string \<Rightarrow> string \<Rightarrow> http_request" where
  "lookup_request u q =
     \<lparr>verb = GET, url = u, params = [(''sysparm_query'', PStr q), (''sysparm_limit'', PStr ''1'')], json = None\<rparr>"

text \<open>The candidate lookups of a user and of a catalog item, in their documented order.\<close>

definition user_lookups :: "ServerConfig \<Rightarrow> string \<Rightarrow> http_request list" where
  "user_lookups config x =
     [lookup_request (api_url config @ ''/table/sys_user'') (''user_name='' @ x),
      lookup_request (api_url config @ ''/table/sys_user'') (''email='' @ x)]"

definition catalog_item_lookups :: "ServerConfig \<Rightarrow> string \<Rightarrow> http_request list" where
  "catalog_item_lookups config x =
     [lookup_request (api_url config @ ''/table/sc_cat_item'') (''name='' @ x),
      lookup_request (api_url config @ ''/table/sc_cat_item'') (''sys_id='' @ x),
      lookup_request (api_url config @ ''/table/sc_cat_item'') (''short_descriptionLIKE'' @ x)]"

text \<open>The log line of a failed lookup, for a user and for a catalog item.\<close>

definition user_log_line :: "string \<Rightarrow> string \<Rightarrow> string \<Rightarrow> string" where
  "user_log_line x field e = ''Failed to resolve user ID for '' @ field @ ''='' @ x @ '': '' @ e"

definition catalog_item_log_line :: "string \<Rightarrow> string \<Rightarrow> string \<Rightarrow> string" where
  "catalog_item_log_line x field e = ''Failed to resolve catalog item ID for '' @ field @ ''='' @ x @ '': '' @ e"

text \<open>The exchanges that a run from \<open>st\<close> to \<open>st'\<close> added to the trace.\<close>

definition new_exchanges :: "state \<Rightarrow> state \<Rightarrow> exchange list" where
  "new_exchanges st st' = drop (length (trace st)) (trace st')"

text \<open>The first record of the first exchange that came back with a non-empty result list.\<close>

fun first_match :: "exchange list \<Rightarrow> sn_record option" where
  "first_match [] = None"
| "first_match ((q, ResultList (r # rs)) # others) = Some r"
| "first_match (x # others) = first_match others"

text \<open>
  The replies in a list of exchanges are the ones the backend gives to these requests, sent
  one after the other on top of the history \<open>h\<close>.
\<close>

fun answered_by :: "backend \<Rightarrow> exchange list \<Rightarrow> exchange list \<Rightarrow> bool" where
  "answered_by b h [] = True"
| "answered_by b h ((q, a) # others) =
     (a = list_reply (table_list b h q) \<and> answered_by b (h @ [(q, a)]) others)"

text \<open>The log lines for the lookups that raised, field by field.\<close>

fun failure_lines :: "(string \<Rightarrow> string \<Rightarrow> string) \<Rightarrow> string list \<Rightarrow> exchange list \<Rightarrow> string list" where
  "failure_lines log_of (f # fs) ((q, Raised e) # others) = log_of f e # failure_lines log_of fs others"
| "failure_lines log_of (f # fs) (x # others) = failure_lines log_of fs others"
| "failure_lines log_of fs others = []"

text \<open>Fixtures: a configuration, the initial state, and a backend that finds nothing.\<close>

definition cfg0 :: ServerConfig where
  "cfg0 = \<lparr>api_url = ''https://example.service-now.com/api/now''\<rparr>"

definition st0 :: state where
  "st0 = \<lparr>trace = [], log = []\<rparr>"

definition quiet_backend :: backend where
  "quiet_backend = \<lparr>table_list = (\<lambda>h q. Response []), table_item = (\<lambda>h q. Response [])\<rparr>"

text \<open>A reply that is no match: anything but a non-empty result list.\<close>

fun no_match :: "reply \<Rightarrow> bool" where
  "no_match (ResultList (r # rs)) = False"
| "no_match a = True"

text \<open>Every record that the backend returns in a list carries a \<^verbatim>\<open>sys_id\<close>.\<close>

definition records_have_sys_id :: "backend \<Rightarrow> bool" where
  "records_have_sys_id b \<longleftrightarrow>
     (\<forall>h q rs r. table_list b h q = Response rs \<longrightarrow> r \<in> set rs \<longrightarrow> map_of r ''sys_id'' \<noteq> None)"

text \<open>
  Resolution by ordered lookup, as a property of one run \<open>res\<close> of a resolver from the state
  \<open>st\<close>: the run sent a non-empty prefix of the candidate requests, in their order, and got
  the backend's replies; no reply before the last is a match; the value returned is the
  \<^verbatim>\<open>sys_id\<close> entry of the first match, and without a match it is \<^verbatim>\<open>None\<close> after all the
  candidates; and \<^verbatim>\<open>None\<close> is returned only when all the candidates were tried and none
  matched.
\<close>

definition resolves_in_order :: "backend \<Rightarrow> http_request list \<Rightarrow> state \<Rightarrow> string option \<times> state \<Rightarrow> bool" where
  "resolves_in_order b candidates st res \<longleftrightarrow>
     (let new = new_exchanges st (snd res) in
        trace (snd res) = trace st @ new
      \<and> new \<noteq> []
      \<and> map fst new = take (length new) candidates
      \<and> answered_by b (trace st) new
      \<and> list_all (no_match \<circ> snd) (butlast new)
      \<and> (case first_match new of
           Some r \<Rightarrow> fst res = map_of r ''sys_id''
         | None \<Rightarrow> fst res = None \<and> map fst new = candidates)
      \<and> (fst res = None \<longrightarrow> list_all (no_match \<circ> snd) new \<and> map fst new = candidates))"

text \<open>
  Tolerance of transport failures, as a property of one run: the log grew by the lines of the
  lookups that raised; a lookup that raised and was not the last candidate is followed by the
  lookup of the next candidate; and when no reply is a match the run returns \<^verbatim>\<open>None\<close>
  after all the candidates.
\<close>

definition tolerates_failures ::
  "(string \<Rightarrow> string \<Rightarrow> string) \<Rightarrow> string list \<Rightarrow> http_request list \<Rightarrow> state \<Rightarrow> string option \<times> state \<Rightarrow> bool" where
  "tolerates_failures log_of names candidates st res \<longleftrightarrow>
     (let new = new_exchanges st (snd res) in
        log (snd res) = log st @ failure_lines log_of names new
      \<and> (\<forall>i<length new. \<forall>e. snd (new ! i) = Raised e \<and> Suc i < length candidates
            \<longrightarrow> Suc i < length new \<and> fst (new ! Suc i) = candidates ! Suc i)
      \<and> (list_all (no_match \<circ> snd) new \<longrightarrow> fst res = None \<and> map fst new = candidates))"


text \<open>The \<^verbatim>\<open>sysparm_query\<close> of the last request of the trace, if it has one.\<close>

definition sent_query :: "state \<Rightarrow> pyval option" where
  "sent_query st =
     (if trace st = [] then None else map_of (params (fst (last (trace st)))) ''sysparm_query'')"

text \<open>
  More fixtures: a backend on which the lookup of \<^verbatim>\<open>jdoe\<close> by \<^verbatim>\<open>user_name\<close> times out
  and the lookup by \<^verbatim>\<open>email\<close> finds one user; a resolver that resolves nothing; and
  parameter objects.
\<close>

definition jdoe_backend :: backend where
  "jdoe_backend =
     \<lparr>table_list = (\<lambda>h q.
         if map_of (params q) ''sysparm_query'' = Some (PStr ''user_name=jdoe'')
           then RequestException ''timeout''
         else if map_of (params q) ''sysparm_query'' = Some (PStr ''email=jdoe'')
           then Response [[(''sys_id'', ''abc123''), (''email'', ''jdoe'')]]
         else Response []),
       table_item = (\<lambda>h q. Response [(''sys_id'', ''new1''), (''number'', ''N0001'')])\<rparr>"

definition no_resolver :: resolver where
  "no_resolver config x st = (None, st)"

definition blank_request :: CreateRequestParams where
  "blank_request = \<lparr>cr_requested_for = [], cr_state = ''1'', cr_approval = ''not requested''\<rparr>"

definition blank_problem :: CreateProblemParams where
  "blank_problem =
     \<lparr>cp_short_description = ''Disk full'', cp_urgency = Some ''3'', cp_impact = Some ''3'',
       cp_assigned_to = Some [], cp_fields = None\<rparr>"

definition jdoe_requests :: ListItemRequestsParams where
  "jdoe_requests =
     \<lparr>lir_limit = 10, lir_offset = 0, lir_requested_for = Some ''jdoe'', lir_cat_item = None,
       lir_number = None, lir_short_description = None\<rparr>"


section \<open>Vocabulary of the requests of the tools\<close>

text \<open>The requests sent so far, in the order they were sent.\<close>

definition sent :: "state \<Rightarrow> http_request list" where
  "sent st = map fst (trace st)"

text \<open>The request of \<^verbatim>\<open>requests.post(u, json=data)\<close> and of \<^verbatim>\<open>requests.get(u, params=query_params)\<close>.\<close>

definition post_request :: "string \<Rightarrow> pydict \<Rightarrow> http_request" where
  "post_request u data = \<lparr>verb = POST, url = u, params = [], json = Some data\<rparr>"

definition list_request :: "string \<Rightarrow> pydict \<Rightarrow> http_request" where
  "list_request u query_params = \<lparr>verb = GET, url = u, params = query_params, json = None\<rparr>"

text \<open>
  What the payload of \<^verbatim>\<open>create_item_request\<close> and of \<^verbatim>\<open>create_problem\<close> holds
  besides the identifiers, and the paging parameters and the clauses of
  \<^verbatim>\<open>list_item_requests\<close> that do not come from an identifier.
\<close>

definition item_request_data :: "CreateItemRequestParams \<Rightarrow> pydict" where
  "item_request_data p =
     opt_put ''number'' (cir_number p)
       [(''state'', PStr (cir_state p)),
        (''short_description'', PStr (cir_short_description p)),
        (''quantity'', PStr (cir_quantity p))]"

definition problem_data :: "CreateProblemParams \<Rightarrow> pydict" where
  "problem_data p =
     put_fields (case cp_fields p of None \<Rightarrow> [] | Some fs \<Rightarrow> fs)
       [(''short_description'', PStr (cp_short_description p)),
        (''urgency'', opt_val (cp_urgency p)),
        (''impact'', opt_val (cp_impact p))]"

definition item_requests_page :: "ListItemRequestsParams \<Rightarrow> pydict" where
  "item_requests_page p =
     [(''sysparm_limit'', PStr (str_int (lir_limit p))),
      (''sysparm_offset'', PStr (str_int (lir_offset p))),
      (''sysparm_display_value'', PStr ''true'')]"

definition item_requests_clauses :: "ListItemRequestsParams \<Rightarrow> string list" where
  "item_requests_clauses p =
     opt_clause (\<lambda>v. ''number='' @ v) (lir_number p)
     @ opt_clause (\<lambda>v. ''short_descriptionLIKE'' @ v) (lir_short_description p)"

text \<open>
  Parameter objects with one identifier empty and the other given: a catalog item by its id
  and no user, the user \<^verbatim>\<open>jdoe\<close> and no catalog item, and a listing by catalog item with an
  empty user.
\<close>

definition catalog_only_item_request :: CreateItemRequestParams where
  "catalog_only_item_request =
     \<lparr>cir_number = None, cir_cat_item = ''0123456789abcdef0123456789abcdef'', cir_requested_for = [],
       cir_quantity = ''1'', cir_request = None, cir_state = ''1'', cir_short_description = ''Laptop''\<rparr>"

definition user_only_item_request :: CreateItemRequestParams where
  "user_only_item_request =
     \<lparr>cir_number = None, cir_cat_item = [], cir_requested_for = ''jdoe'',
       cir_quantity = ''1'', cir_request = None, cir_state = ''1'', cir_short_description = ''Laptop''\<rparr>"

definition catalog_only_listing :: ListItemRequestsParams where
  "catalog_only_listing =
     \<lparr>lir_limit = 10, lir_offset = 0, lir_requested_for = Some [], lir_cat_item = Some ''laptop'',
       lir_number = None, lir_short_description = None\<rparr>"

section \<open>Vocabulary of the queries and of the results of the tools\<close>

text \<open>
  The clauses that \<^verbatim>\<open>list_assets\<close> appends to \<^verbatim>\<open>query_parts\<close>, in the order of the source:
  the membership clause on \<^verbatim>\<open>assigned_to\<close> when the parameter is a non-empty list, then
  \<^verbatim>\<open>location\<close>, \<^verbatim>\<open>name\<close> and \<^verbatim>\<open>query\<close>. The ids of the users are what the loop over
  \<^verbatim>\<open>params.assigned_to\<close> collected.
\<close>

definition list_assets_other_clauses :: "ListAssetsParams \<Rightarrow> string list" where
  "list_assets_other_clauses p =
     opt_clause (\<lambda>v. ''location='' @ v) (la_location p)
     @ opt_clause (\<lambda>v. ''display_nameLIKE'' @ v) (la_name p)
     @ opt_clause (\<lambda>v. ''^asset_tagLIKE'' @ v @ ''^ORdisplay_nameLIKE'' @ v
                          @ ''^ORserial_numberLIKE'' @ v @ ''^ORmodelLIKE'' @ v
                          @ ''^ORshort_descriptionLIKE'' @ v) (la_query p)"

definition list_assets_clauses :: "string list \<Rightarrow> ListAssetsParams \<Rightarrow> string list" where
  "list_assets_clauses user_ids p =
     (case la_assigned_to p of
        None \<Rightarrow> []
      | Some [] \<Rightarrow> []
      | Some users \<Rightarrow> [''assigned_toIN'' @ str_join '','' user_ids])
     @ list_assets_other_clauses p"

definition resolved_users :: "resolver \<Rightarrow> ServerConfig \<Rightarrow> ListAssetsParams \<Rightarrow> state \<Rightarrow> string list" where
  "resolved_users ru config p st =
     (case la_assigned_to p of None \<Rightarrow> [] | Some users \<Rightarrow> fst (resolve_users ru config users st))"

text \<open>
  What the resolver answers for each entry of a list of users, the entries resolved one after
  the other; and the state after the loop over \<^verbatim>\<open>params.assigned_to\<close>.
\<close>

fun resolver_answers :: "resolver \<Rightarrow> ServerConfig \<Rightarrow> string list \<Rightarrow> state \<Rightarrow> string option list" where
  "resolver_answers ru config [] st = []"
| "resolver_answers ru config (user # rest) st =
     (let (a, st1) = ru config user st in a # resolver_answers ru config rest st1)"

definition after_users_resolution :: "resolver \<Rightarrow> ServerConfig \<Rightarrow> string list option \<Rightarrow> state \<Rightarrow> state" where
  "after_users_resolution r config xs st =
     (case xs of None \<Rightarrow> st | Some users \<Rightarrow> snd (resolve_users r config users st))"


text \<open>
  The clauses of \<^verbatim>\<open>list_item_requests\<close> for the user and for the catalog item, and the
  clauses of \<^verbatim>\<open>list_hardware_assets\<close> that do not come from an identifier.
\<close>

definition requested_for_clause :: "backend \<Rightarrow> ServerConfig \<Rightarrow> ListItemRequestsParams \<Rightarrow> state \<Rightarrow> string list" where
  "requested_for_clause b config p st =
     (if truthy (lir_requested_for p)
      then [resolved_or_raw ''requested_for'' (the (lir_requested_for p))
              (fst (request_resolve_user_id b config (the (lir_requested_for p)) st))]
      else [])"

definition cat_item_clause :: "backend \<Rightarrow> ServerConfig \<Rightarrow> ListItemRequestsParams \<Rightarrow> state \<Rightarrow> string list" where
  "cat_item_clause b config p st =
     (if truthy (lir_cat_item p)
      then [resolved_or_raw ''cat_item'' (the (lir_cat_item p))
              (fst (resolve_catalog_item_id b config (the (lir_cat_item p)) st))]
      else [])"

definition hardware_other_clauses :: "ListHardwareAssetsParams \<Rightarrow> string list" where
  "hardware_other_clauses p =
     opt_clause (\<lambda>v. ''display_nameLIKE'' @ v) (lha_name p)
     @ opt_clause (\<lambda>v. ''^asset_tagLIKE'' @ v @ ''^ORdisplay_nameLIKE'' @ v
                          @ ''^ORserial_numberLIKE'' @ v @ ''^ORmodelLIKE'' @ v) (lha_query p)"

text \<open>
  The state after the resolution of an optional identifier, which happens only when the
  identifier is truthy; and an identifier that was given and that the resolver did not resolve.
\<close>

definition after_resolution :: "resolver \<Rightarrow> ServerConfig \<Rightarrow> string option \<Rightarrow> state \<Rightarrow> state" where
  "after_resolution r config x st = (if truthy x then snd (r config (the x) st) else st)"

definition unresolved :: "resolver \<Rightarrow> ServerConfig \<Rightarrow> string option \<Rightarrow> state \<Rightarrow> bool" where
  "unresolved r config x st \<longleftrightarrow> truthy x \<and> \<not> truthy (fst (r config (the x) st))"

text \<open>
  A run \<open>res\<close> that reports the error \<open>msg\<close> and stops in the state \<open>st1\<close>: the result is
  a failure with this message, and nothing was sent or logged after \<open>st1\<close>.
\<close>

definition reports :: "string \<Rightarrow> state \<Rightarrow> 'a ToolResponse_scheme \<times> state \<Rightarrow> bool" where
  "reports msg st1 res \<longleftrightarrow> \<not> success (fst res) \<and> message (fst res) = msg \<and> snd res = st1"

text \<open>
  Transport failures of the requests of a tool itself, those sent after the state \<open>st1\<close> in
  which identifier resolution ended: whenever one of them raised with the text \<open>e\<close>, the
  result is a failure whose message is \<open>prefix\<close> followed by \<open>e\<close>. The three variants are
  for a tool that returns a response model, a tool that returns a dictionary, and
  \<^verbatim>\<open>create_problem\<close>, whose result may also be a \<^verbatim>\<open>TypeError\<close>.
\<close>

definition own_failures_reported :: "string \<Rightarrow> state \<Rightarrow> 'a ToolResponse_scheme \<times> state \<Rightarrow> bool" where
  "own_failures_reported prefix st1 res \<longleftrightarrow>
     (\<forall>q e. (q, Raised e) \<in> set (new_exchanges st1 (snd res))
        \<longrightarrow> \<not> success (fst res) \<and> message (fst res) = prefix @ e)"

definition own_failures_reported_dict :: "string \<Rightarrow> state \<Rightarrow> pydict \<times> state \<Rightarrow> bool" where
  "own_failures_reported_dict prefix st1 res \<longleftrightarrow>
     (\<forall>q e. (q, Raised e) \<in> set (new_exchanges st1 (snd res))
        \<longrightarrow> map_of (fst res) ''success'' = Some (PBool False)
          \<and> map_of (fst res) ''message'' = Some (PStr (prefix @ e)))"

definition own_failures_reported_or_raised ::
  "string \<Rightarrow> state \<Rightarrow> (py_error + 'a ToolResponse_scheme) \<times> state \<Rightarrow> bool" where
  "own_failures_reported_or_raised prefix st1 res \<longleftrightarrow>
     (\<forall>q e. (q, Raised e) \<in> set (new_exchanges st1 (snd res))
        \<longrightarrow> (\<exists>r. fst res = Inr r \<and> \<not> success r \<and> message r = prefix @ e))"

text \<open>
  Fixtures: a backend on which every request fails; a resolver over a small directory, which
  knows the user \<^verbatim>\<open>jdoe\<close> and the asset tag \<^verbatim>\<open>P1000\<close> and sends nothing; and a state with a
  history.
\<close>

definition down_backend :: backend where
  "down_backend =
     \<lparr>table_list = (\<lambda>h q. RequestException ''connection refused''),
       table_item = (\<lambda>h q. RequestException ''connection refused'')\<rparr>"

definition directory_resolver :: resolver where
  "directory_resolver config x st =
     (if x = ''jdoe'' then Some ''abc123'' else if x = ''P1000'' then Some ''a1000'' else None, st)"

definition busy_state :: state where
  "busy_state =
     \<lparr>trace = [(lookup_request ''https://example.service-now.com/api/now/table/sys_user'' ''user_name=jdoe'',
                 Raised ''timeout'')],
       log = [''Failed to resolve user ID for user_name=jdoe: timeout'']\<rparr>"

text \<open>Parameter objects of the listing tools.\<close>

definition mac_assets :: ListAssetsParams where
  "mac_assets =
     \<lparr>la_limit = 100, la_offset = 0, la_assigned_to = None, la_location = None, la_name = None,
       la_query = Some ''mac''\<rparr>"

definition nyc_mac_assets :: ListAssetsParams where
  "nyc_mac_assets =
     \<lparr>la_limit = 100, la_offset = 0, la_assigned_to = None, la_location = Some ''NYC'', la_name = None,
       la_query = Some ''mac''\<rparr>"

definition nyc_laptops :: ListAssetsParams where
  "nyc_laptops =
     \<lparr>la_limit = 100, la_offset = 0, la_assigned_to = None, la_location = Some ''NYC'',
       la_name = Some ''laptop'', la_query = None\<rparr>"

definition all_filters :: ListAssetsParams where
  "all_filters =
     \<lparr>la_limit = 100, la_offset = 0, la_assigned_to = Some [''jdoe'', ''ghost''],
       la_location = Some ''NYC'', la_name = Some ''laptop'', la_query = None\<rparr>"

definition ghost_assets :: ListAssetsParams where
  "ghost_assets =
     \<lparr>la_limit = 100, la_offset = 0, la_assigned_to = Some [''ghost'', ''nobody''],
       la_location = None, la_name = None, la_query = None\<rparr>"

definition mac_hardware :: ListHardwareAssetsParams where
  "mac_hardware =
     \<lparr>lha_limit = 10, lha_offset = 0, lha_assigned_to = None, lha_name = None, lha_query = Some ''mac''\<rparr>"

definition nobody_hardware :: ListHardwareAssetsParams where
  "nobody_hardware =
     \<lparr>lha_limit = 10, lha_offset = 0, lha_assigned_to = Some ''nobody'', lha_name = None, lha_query = None\<rparr>"

definition mac_knowledge_bases :: ListKnowledgeBasesParams where
  "mac_knowledge_bases = \<lparr>lkb_limit = 10, lkb_offset = 0, lkb_active = None, lkb_query = Some ''mac''\<rparr>"

definition nobody_requests :: ListItemRequestsParams where
  "nobody_requests =
     \<lparr>lir_limit = 10, lir_offset = 0, lir_requested_for = Some ''nobody'', lir_cat_item = None,
       lir_number = None, lir_short_description = None\<rparr>"

definition laptop_requests :: ListItemRequestsParams where
  "laptop_requests =
     \<lparr>lir_limit = 10, lir_offset = 0, lir_requested_for = None, lir_cat_item = Some ''laptop'',
       lir_number = None, lir_short_description = None\<rparr>"

definition recent_requests :: ListItemRequestsParams where
  "recent_requests =
     \<lparr>lir_limit = 10, lir_offset = 0, lir_requested_for = None, lir_cat_item = None,
       lir_number = None, lir_short_description = None\<rparr>"

text \<open>Parameter objects of the tools that create, delete and transfer.\<close>

definition jdoe_problem :: CreateProblemParams where
  "jdoe_problem =
     \<lparr>cp_short_description = ''Disk full'', cp_urgency = Some ''3'', cp_impact = Some ''3'',
       cp_assigned_to = Some ''jdoe'', cp_fields = None\<rparr>"

definition nobody_problem :: CreateProblemParams where
  "nobody_problem =
     \<lparr>cp_short_description = ''Disk full'', cp_urgency = Some ''3'', cp_impact = Some ''3'',
       cp_assigned_to = Some ''nobody'', cp_fields = None\<rparr>"

definition nobody_request :: CreateRequestParams where
  "nobody_request = \<lparr>cr_requested_for = ''nobody'', cr_state = ''1'', cr_approval = ''not requested''\<rparr>"

definition nobody_item_request :: CreateItemRequestParams where
  "nobody_item_request =
     \<lparr>cir_number = None, cir_cat_item = ''laptop'', cir_requested_for = ''nobody'',
       cir_quantity = ''1'', cir_request = None, cir_state = ''1'', cir_short_description = ''Laptop''\<rparr>"

definition laptop_item_request :: CreateItemRequestParams where
  "laptop_item_request =
     \<lparr>cir_number = None, cir_cat_item = ''laptop'', cir_requested_for = [],
       cir_quantity = ''1'', cir_request = None, cir_state = ''1'', cir_short_description = ''Laptop''\<rparr>"

definition new_asset :: CreateAssetParams where
  "new_asset =
     \<lparr>ca_asset_tag = ''P1000'', ca_display_name = ''Laptop'', ca_model = None, ca_serial_number = None,
       ca_assigned_to = Some ''jdoe'', ca_location = None, ca_cost = None, ca_purchase_date = None,
       ca_warranty_expiration = None, ca_category = None, ca_subcategory = None,
       ca_manufacturer = None, ca_model_category = None, ca_state = Some ''1'', ca_substatus = None,
       ca_comments = None\<rparr>"

definition retire_asset :: DeleteAssetParams where
  "retire_asset = \<lparr>da_asset_id = ''P1000'', da_reason = None\<rparr>"

definition hand_over :: TransferAssetParams where
  "hand_over =
     \<lparr>ta_asset_id = ''P1000'', ta_new_assigned_to = ''jdoe'', ta_transfer_reason = None, ta_comments = None\<rparr>"

definition laptop_order :: SubmitHardwareOrderParams where
  "laptop_order =
     \<lparr>sho_catalog_item_id = ''0123456789abcdef0123456789abcdef'', sho_requested_for = ''jdoe'',
       sho_quantity = 2, sho_justification = None, sho_priority = Some ''3'',
       sho_requested_delivery_date = None, sho_special_instructions = None,
       sho_cost_center = None, sho_project_code = None\<rparr>"


section \<open>The lookup loop\<close>

text \<open>
  Every run of the loop over the candidate fields \<open>fs\<close> sends a prefix of the candidate
  requests, in order; the replies are the backend's; no exchange before the last one is a
  match; each lookup that raised left its line in the log; and the value returned is the
  \<^verbatim>\<open>sys_id\<close> entry of the first match, or \<^verbatim>\<open>None\<close> after all the candidates.
\<close>

lemma lookup_fields_run:
  "lookup_fields b u qf lf fs st = (r, st') \<Longrightarrow>
   \<exists>new. trace st' = trace st @ new
     \<and> log st' = log st @ failure_lines lf fs new
     \<and> map fst new = take (length new) (map (\<lambda>f. lookup_request u (qf f)) fs)
     \<and> answered_by b (trace st) new
     \<and> first_match (butlast new) = None
     \<and> (case first_match new of Some rec \<Rightarrow> r = map_of rec ''sys_id''
         | None \<Rightarrow> r = None \<and> length new = length fs)"
proof (induction fs arbitrary: st)
  case Nil
  then show ?case by simp
next
  case (Cons f fs)
  let ?q = "lookup_request u (qf f)"
  let ?out = "table_list b (trace st) ?q"
  let ?st1 = "st\<lparr>trace := trace st @ [(?q, list_reply ?out)]\<rparr>"
  have step: "requests_get b u [(''sysparm_query'', PStr (qf f)), (''sysparm_limit'', PStr ''1'')] st = (?out, ?st1)"
    by (simp add: requests_get_def send_list_def lookup_request_def Let_def)
  consider (raised) e where "?out = RequestException e"
    | (empty) "json_result [] ?out = Inr []" "\<forall>e. ?out \<noteq> RequestException e"
    | (hit) rec others where "?out = Response (rec # others)"
  proof (cases ?out)
    case (RequestException e) then show ?thesis using raised by blast
  next
    case (Response rs) then show ?thesis using empty hit by (cases rs) auto
  next
    case (NoResult body) then show ?thesis using empty by auto
  qed
  then show ?case
  proof cases
    case raised
    with Cons.prems step have run: "lookup_fields b u qf lf fs (logger_error (lf f e) ?st1) = (r, st')"
      by simp
    from Cons.IH[OF run] obtain new where
      new: "trace st' = trace (logger_error (lf f e) ?st1) @ new"
        "log st' = log (logger_error (lf f e) ?st1) @ failure_lines lf fs new"
        "map fst new = take (length new) (map (\<lambda>f. lookup_request u (qf f)) fs)"
        "answered_by b (trace (logger_error (lf f e) ?st1)) new"
        "first_match (butlast new) = None"
        "(case first_match new of Some rec \<Rightarrow> r = map_of rec ''sys_id''
           | None \<Rightarrow> r = None \<and> length new = length fs)"
      by blast
    let ?new = "(?q, Raised e) # new"
    have "trace st' = trace st @ ?new" using new(1) raised by (simp add: logger_error_def)
    moreover have "log st' = log st @ failure_lines lf (f # fs) ?new"
      using new(2) by (simp add: logger_error_def)
    moreover have "map fst ?new = take (length ?new) (map (\<lambda>f. lookup_request u (qf f)) (f # fs))"
      using new(3) by simp
    moreover have "answered_by b (trace st) ?new"
      using new(4) raised by (simp add: logger_error_def)
    moreover have "first_match (butlast ?new) = None" using new(5) by simp
    moreover have "(case first_match ?new of Some rec \<Rightarrow> r = map_of rec ''sys_id''
           | None \<Rightarrow> r = None \<and> length ?new = length (f # fs))"
      using new(6) by (simp split: option.splits)
    ultimately show ?thesis by blast
  next
    case empty
    with Cons.prems step have run: "lookup_fields b u qf lf fs ?st1 = (r, st')"
      by simp
    from Cons.IH[OF run] obtain new where
      new: "trace st' = trace ?st1 @ new"
        "log st' = log ?st1 @ failure_lines lf fs new"
        "map fst new = take (length new) (map (\<lambda>f. lookup_request u (qf f)) fs)"
        "answered_by b (trace ?st1) new"
        "first_match (butlast new) = None"
        "(case first_match new of Some rec \<Rightarrow> r = map_of rec ''sys_id''
           | None \<Rightarrow> r = None \<and> length new = length fs)"
      by blast
    let ?a = "list_reply ?out"
    let ?new = "(?q, ?a) # new"
    from empty have a: "?a = ResultList [] \<or> (\<exists>body. ?a = Body body)"
      by (cases ?out) auto
    have "trace st' = trace st @ ?new" using new(1) by simp
    moreover have "log st' = log st @ failure_lines lf (f # fs) ?new"
      using new(2) a by auto
    moreover have "map fst ?new = take (length ?new) (map (\<lambda>f. lookup_request u (qf f)) (f # fs))"
      using new(3) by simp
    moreover have "answered_by b (trace st) ?new"
      using new(4) by simp
    moreover have "first_match (butlast ?new) = None" using new(5) a by auto
    moreover have "(case first_match ?new of Some rec \<Rightarrow> r = map_of rec ''sys_id''
           | None \<Rightarrow> r = None \<and> length ?new = length (f # fs))"
      using new(6) a by (auto split: option.splits)
    ultimately show ?thesis by blast
  next
    case hit
    with Cons.prems step have res: "r = map_of rec ''sys_id''" "st' = ?st1"
      by simp_all
    let ?new = "[(?q, ResultList (rec # others))]"
    have "trace st' = trace st @ ?new" using res hit by simp
    moreover have "log st' = log st @ failure_lines lf (f # fs) ?new" using res by simp
    moreover have "map fst ?new = take (length ?new) (map (\<lambda>f. lookup_request u (qf f)) (f # fs))"
      by simp
    moreover have "answered_by b (trace st) ?new" using hit by simp
    moreover have "first_match (butlast ?new) = None" by simp
    moreover have "(case first_match ?new of Some rec \<Rightarrow> r = map_of rec ''sys_id''
           | None \<Rightarrow> r = None \<and> length ?new = length (f # fs))"
      using res by simp
    ultimately show ?thesis by blast
  qed
qed

section \<open>The shape test of the resolvers\<close>

lemma looks_like_sys_id_mono:
  "set a \<subseteq> set b \<Longrightarrow> looks_like_sys_id a s \<Longrightarrow> looks_like_sys_id b s"
  by (auto simp: looks_like_sys_id_def list_all_iff)

lemma lower_hex_is_hex:
  assumes "looks_like_sys_id ''0123456789abcdef'' s"
  shows "looks_like_sys_id ''0123456789abcdefABCDEF'' s"
proof -
  have split: "''0123456789abcdefABCDEF'' = ''0123456789abcdef'' @ ''ABCDEF''"
    by simp
  have "set ''0123456789abcdef'' \<subseteq> set (''0123456789abcdef'' @ ''ABCDEF'')"
    by (simp only: set_append Un_upper1)
  then show ?thesis
    unfolding split using assms by (rule looks_like_sys_id_mono)
qed

text \<open>
  A string of 32 lower-case hexadecimal digits comes back from each of the three resolvers
  as it is, and the state, hence the trace of HTTP calls, is untouched.
\<close>

lemma lower_case_id_returned_unchanged:
  assumes "looks_like_sys_id ''0123456789abcdef'' x"
  shows "request_resolve_user_id b config x st = (Some x, st)"
    and "record_resolve_user_id b config x st = (Some x, st)"
    and "resolve_catalog_item_id b config x st = (Some x, st)"
  using assms lower_hex_is_hex[OF assms]
  by (simp_all add: request_resolve_user_id_def record_resolve_user_id_def resolve_catalog_item_id_def)

text \<open>With digits of either case, only the resolver of \<^verbatim>\<open>record_tools\<close> does so.\<close>

lemma any_case_id_returned_unchanged_by_record_tools:
  "looks_like_sys_id ''0123456789abcdefABCDEF'' x \<Longrightarrow> record_resolve_user_id b config x st = (Some x, st)"
  by (simp add: record_resolve_user_id_def)

lemma upper_case_id_shape:
  "\<not> looks_like_sys_id ''0123456789abcdef'' ''ABCDEF0123456789ABCDEF0123456789''"
  "looks_like_sys_id ''0123456789abcdefABCDEF'' ''ABCDEF0123456789ABCDEF0123456789''"
  by (simp_all add: looks_like_sys_id_def)

text \<open>
  C1. The claim: a string of 32 hexadecimal digits in any case is returned unchanged by every
  resolver, with no HTTP call. On the upper-case id
  \<^verbatim>\<open>ABCDEF0123456789ABCDEF0123456789\<close> the resolver of \<^verbatim>\<open>record_tools\<close> does that, while
  \<^verbatim>\<open>_resolve_user_id\<close> and \<^verbatim>\<open>_resolve_catalog_item_id\<close> of \<^verbatim>\<open>request_tools\<close>, whose
  alphabet has the lower-case letters only, send all their lookups and, on a backend that
  finds nothing under these names, return \<^verbatim>\<open>None\<close>.
\<close>

theorem upper_case_id_is_looked_up_by_request_tools:
  "record_resolve_user_id quiet_backend cfg0 ''ABCDEF0123456789ABCDEF0123456789'' st0
     = (Some ''ABCDEF0123456789ABCDEF0123456789'', st0)
   \<and> fst (request_resolve_user_id quiet_backend cfg0 ''ABCDEF0123456789ABCDEF0123456789'' st0) = None
   \<and> map fst (trace (snd (request_resolve_user_id quiet_backend cfg0 ''ABCDEF0123456789ABCDEF0123456789'' st0)))
       = user_lookups cfg0 ''ABCDEF0123456789ABCDEF0123456789''
   \<and> fst (resolve_catalog_item_id quiet_backend cfg0 ''ABCDEF0123456789ABCDEF0123456789'' st0) = None
   \<and> map fst (trace (snd (resolve_catalog_item_id quiet_backend cfg0 ''ABCDEF0123456789ABCDEF0123456789'' st0)))
       = catalog_item_lookups cfg0 ''ABCDEF0123456789ABCDEF0123456789''"
  by (simp add: record_resolve_user_id_def request_resolve_user_id_def resolve_catalog_item_id_def
        upper_case_id_shape requests_get_def send_list_def quiet_backend_def st0_def
        user_lookups_def catalog_item_lookups_def lookup_request_def cfg0_def)

section \<open>Resolution by ordered lookup\<close>

lemma new_exchanges_append:
  "trace st' = trace st @ new \<Longrightarrow> new_exchanges st st' = new"
  by (simp add: new_exchanges_def)

lemma first_match_skip:
  "no_match a \<Longrightarrow> first_match ((q, a) # others) = first_match others"
proof (cases a)
  case (ResultList rs)
  assume "no_match a"
  with ResultList show ?thesis by (cases rs) auto
qed auto

lemma first_match_hit:
  "\<not> no_match a \<Longrightarrow> \<exists>r rs. a = ResultList (r # rs) \<and> first_match ((q, a) # others) = Some r"
proof (cases a)
  case (ResultList rs)
  assume "\<not> no_match a"
  with ResultList show ?thesis by (cases rs) auto
qed auto

lemma first_match_None_iff:
  "first_match new = None \<longleftrightarrow> list_all (no_match \<circ> snd) new"
proof (induction new)
  case Nil
  show ?case by simp
next
  case (Cons x new)
  obtain q a where x: "x = (q, a)" by (cases x)
  show ?case
  proof (cases "no_match a")
    case True
    with Cons x show ?thesis by (simp add: first_match_skip)
  next
    case False
    from first_match_hit[OF False, of q new] False x show ?thesis by auto
  qed
qed

lemma first_match_append:
  "first_match (xs @ ys) = (case first_match xs of Some r \<Rightarrow> Some r | None \<Rightarrow> first_match ys)"
proof (induction xs)
  case Nil
  show ?case by simp
next
  case (Cons x xs)
  obtain q a where x: "x = (q, a)" by (cases x)
  show ?case
  proof (cases "no_match a")
    case True
    with Cons x show ?thesis by (simp add: first_match_skip)
  next
    case False
    from first_match_hit[OF False, of q "xs @ ys"] first_match_hit[OF False, of q xs] x
    show ?thesis by auto
  qed
qed

lemma first_match_from_backend:
  "answered_by b h new \<Longrightarrow> first_match new = Some rec \<Longrightarrow>
     \<exists>h' q rs. table_list b h' q = Response rs \<and> rec \<in> set rs"
proof (induction new arbitrary: h)
  case Nil
  then show ?case by simp
next
  case (Cons x new)
  obtain q a where x: "x = (q, a)" by (cases x)
  show ?case
  proof (cases "no_match a")
    case True
    with Cons.prems x have "answered_by b (h @ [(q, a)]) new" "first_match new = Some rec"
      by (auto simp: first_match_skip)
    then show ?thesis by (rule Cons.IH)
  next
    case False
    from first_match_hit[OF False, of q new] obtain r rs
      where a: "a = ResultList (r # rs)" and fm: "first_match ((q, a) # new) = Some r" by blast
    with Cons.prems x have rec: "rec = r" by simp
    from Cons.prems x a have "list_reply (table_list b h q) = ResultList (r # rs)" by simp
    then have "table_list b h q = Response (r # rs)"
      by (cases "table_list b h q") auto
    with rec show ?thesis by force
  qed
qed

lemma raised_is_followed:
  assumes bl: "first_match (butlast new) = None"
    and all: "first_match new = None \<longrightarrow> length new = n"
    and i: "i < length new" "snd (new ! i) = Raised e" "Suc i < n"
  shows "Suc i < length new"
proof (rule ccontr)
  assume "\<not> Suc i < length new"
  with i(1) have last: "i = length new - 1" and ne: "new \<noteq> []" by auto
  then have split: "new = butlast new @ [new ! i]"
    by (metis append_butlast_last_id last_conv_nth)
  obtain q where q: "new ! i = (q, Raised e)" using i(2) by (cases "new ! i") auto
  have "first_match new = first_match (butlast new @ [(q, Raised e)])"
    using split q by simp
  also have "\<dots> = None" using bl by (simp add: first_match_append)
  finally have "length new = n" using all by simp
  with i(1,3) last show False by simp
qed

lemma lookup_fields_resolves:
  assumes run: "lookup_fields b u qf lf fs st = res"
    and cands: "candidates = map (\<lambda>f. lookup_request u (qf f)) fs"
    and ne: "fs \<noteq> []"
  shows "trace (snd res) = trace st @ new_exchanges st (snd res)"
    and "new_exchanges st (snd res) \<noteq> []"
    and "map fst (new_exchanges st (snd res)) = take (length (new_exchanges st (snd res))) candidates"
    and "answered_by b (trace st) (new_exchanges st (snd res))"
    and "first_match (butlast (new_exchanges st (snd res))) = None"
    and "(case first_match (new_exchanges st (snd res)) of
           Some r \<Rightarrow> fst res = map_of r ''sys_id''
         | None \<Rightarrow> fst res = None \<and> map fst (new_exchanges st (snd res)) = candidates)"
    and "log (snd res) = log st @ failure_lines lf fs (new_exchanges st (snd res))"
    and "first_match (new_exchanges st (snd res)) = None \<longrightarrow> length (new_exchanges st (snd res)) = length candidates"
proof -
  from run have "lookup_fields b u qf lf fs st = (fst res, snd res)" by simp
  from lookup_fields_run[OF this] obtain new where
    new: "trace (snd res) = trace st @ new"
      "log (snd res) = log st @ failure_lines lf fs new"
      "map fst new = take (length new) (map (\<lambda>f. lookup_request u (qf f)) fs)"
      "answered_by b (trace st) new"
      "first_match (butlast new) = None"
      "(case first_match new of Some rec \<Rightarrow> fst res = map_of rec ''sys_id''
         | None \<Rightarrow> fst res = None \<and> length new = length fs)"
    by blast
  have eq: "new_exchanges st (snd res) = new" using new(1) by (rule new_exchanges_append)
  show "trace (snd res) = trace st @ new_exchanges st (snd res)" using new(1) eq by simp
  show "new_exchanges st (snd res) \<noteq> []"
  proof
    assume "new_exchanges st (snd res) = []"
    with eq have "new = []" by simp
    with new(6) ne show False by simp
  qed
  show "map fst (new_exchanges st (snd res)) = take (length (new_exchanges st (snd res))) candidates"
    using new(3) eq cands by simp
  show "answered_by b (trace st) (new_exchanges st (snd res))" using new(4) eq by simp
  show "first_match (butlast (new_exchanges st (snd res))) = None" using new(5) eq by simp
  show "(case first_match (new_exchanges st (snd res)) of
           Some r \<Rightarrow> fst res = map_of r ''sys_id''
         | None \<Rightarrow> fst res = None \<and> map fst (new_exchanges st (snd res)) = candidates)"
    using new(6) new(3) eq cands by (auto split: option.splits)
  show "log (snd res) = log st @ failure_lines lf fs (new_exchanges st (snd res))"
    using new(2) eq by simp
  show "first_match (new_exchanges st (snd res)) = None \<longrightarrow> length (new_exchanges st (snd res)) = length candidates"
    using new(6) eq cands by (auto split: option.splits)
qed

lemma lookup_fields_in_order:
  assumes run: "lookup_fields b u qf lf fs st = res"
    and cands: "candidates = map (\<lambda>f. lookup_request u (qf f)) fs"
    and ne: "fs \<noteq> []"
    and ids: "records_have_sys_id b"
  shows "resolves_in_order b candidates st res"
proof -
  note r = lookup_fields_resolves[OF run cands ne]
  let ?new = "new_exchanges st (snd res)"
  have "fst res = None \<longrightarrow> list_all (no_match \<circ> snd) ?new \<and> map fst ?new = candidates"
  proof
    assume none: "fst res = None"
    show "list_all (no_match \<circ> snd) ?new \<and> map fst ?new = candidates"
    proof (cases "first_match ?new")
      case None
      with r(6) show ?thesis by (simp add: first_match_None_iff)
    next
      case (Some rec)
      from first_match_from_backend[OF r(4) Some] ids
      have "map_of rec ''sys_id'' \<noteq> None" by (auto simp: records_have_sys_id_def)
      with r(6) Some none show ?thesis by simp
    qed
  qed
  with r show ?thesis
    by (simp add: resolves_in_order_def Let_def first_match_None_iff[symmetric])
qed

lemma lookup_fields_tolerates:
  assumes run: "lookup_fields b u qf lf fs st = res"
    and cands: "candidates = map (\<lambda>f. lookup_request u (qf f)) fs"
    and ne: "fs \<noteq> []"
  shows "tolerates_failures lf fs candidates st res"
proof -
  note r = lookup_fields_resolves[OF run cands ne]
  let ?new = "new_exchanges st (snd res)"
  have follow: "\<forall>i<length ?new. \<forall>e. snd (?new ! i) = Raised e \<and> Suc i < length candidates
            \<longrightarrow> Suc i < length ?new \<and> fst (?new ! Suc i) = candidates ! Suc i"
  proof (intro allI impI)
    fix i e
    assume i: "i < length ?new" and h: "snd (?new ! i) = Raised e \<and> Suc i < length candidates"
    from h have h1: "snd (?new ! i) = Raised e" and h2: "Suc i < length candidates" by simp_all
    have lt: "Suc i < length ?new"
      by (rule raised_is_followed[OF r(5) r(8) i h1 h2])
    have "fst (?new ! Suc i) = map fst ?new ! Suc i" using lt by simp
    also have "\<dots> = take (length ?new) candidates ! Suc i" using r(3) by simp
    also have "\<dots> = candidates ! Suc i" using lt by simp
    finally show "Suc i < length ?new \<and> fst (?new ! Suc i) = candidates ! Suc i" using lt by simp
  qed
  have "list_all (no_match \<circ> snd) ?new \<longrightarrow> fst res = None \<and> map fst ?new = candidates"
    using r(6) by (auto simp: first_match_None_iff[symmetric])
  with follow r(7) show ?thesis
    by (simp add: tolerates_failures_def Let_def)
qed

lemma request_user_candidates:
  "user_lookups config x =
     map (\<lambda>f. lookup_request (api_url config @ ''/table/sys_user'') (f @ ''='' @ x)) [''user_name'', ''email'']"
  by (simp add: user_lookups_def)

lemma catalog_item_candidates:
  "catalog_item_lookups config x =
     map (\<lambda>f. lookup_request (api_url config @ ''/table/sc_cat_item'')
                (if f \<noteq> ''short_description'' then f @ ''='' @ x else f @ ''LIKE'' @ x))
       [''name'', ''sys_id'', ''short_description'']"
  by (simp add: catalog_item_lookups_def)

lemma user_log_line_eq:
  "(\<lambda>field e. ''Failed to resolve user ID for '' @ field @ ''='' @ x @ '': '' @ e) = user_log_line x"
  by (simp add: user_log_line_def fun_eq_iff)

lemma catalog_item_log_line_eq:
  "(\<lambda>field e. ''Failed to resolve catalog item ID for '' @ field @ ''='' @ x @ '': '' @ e) = catalog_item_log_line x"
  by (simp add: catalog_item_log_line_def fun_eq_iff)

lemma request_user_run:
  "\<not> looks_like_sys_id ''0123456789abcdef'' x \<Longrightarrow>
   lookup_fields b (api_url config @ ''/table/sys_user'') (\<lambda>f. f @ ''='' @ x) (user_log_line x)
     [''user_name'', ''email''] st = request_resolve_user_id b config x st"
  by (simp only: request_resolve_user_id_def user_log_line_eq if_not_P if_False)

lemma record_user_run:
  "\<not> looks_like_sys_id ''0123456789abcdefABCDEF'' x \<Longrightarrow>
   lookup_fields b (api_url config @ ''/table/sys_user'') (\<lambda>f. f @ ''='' @ x) (user_log_line x)
     [''user_name'', ''email''] st = record_resolve_user_id b config x st"
  by (simp only: record_resolve_user_id_def user_log_line_eq if_not_P if_False)

lemma catalog_item_run:
  "\<not> looks_like_sys_id ''0123456789abcdef'' x \<Longrightarrow>
   lookup_fields b (api_url config @ ''/table/sc_cat_item'')
     (\<lambda>f. if f \<noteq> ''short_description'' then f @ ''='' @ x else f @ ''LIKE'' @ x) (catalog_item_log_line x)
     [''name'', ''sys_id'', ''short_description''] st = resolve_catalog_item_id b config x st"
  by (simp only: resolve_catalog_item_id_def catalog_item_log_line_eq if_not_P if_False)

text \<open>
  C2. On an input that does not look like an id, a resolver sends the lookups of its
  candidate fields in the fixed order (\<^verbatim>\<open>user_name\<close> then \<^verbatim>\<open>email\<close> for a user;
  \<^verbatim>\<open>name\<close>, \<^verbatim>\<open>sys_id\<close>, then \<^verbatim>\<open>short_description\<close> with \<^verbatim>\<open>LIKE\<close> for a catalog item),
  each with \<^verbatim>\<open>sysparm_limit\<close> \<^verbatim>\<open>"1"\<close>; it stops at the first lookup whose result list is not
  empty and returns the \<^verbatim>\<open>sys_id\<close> of its first record; and it returns \<^verbatim>\<open>None\<close> only when
  every candidate has been tried and none matched. The records are those of the Table API,
  which carry their \<^verbatim>\<open>sys_id\<close>: the value returned is \<^verbatim>\<open>result[0].get("sys_id")\<close>.
\<close>

theorem lookups_in_fixed_order_first_match_wins:
  assumes "records_have_sys_id b"
  shows "(\<not> looks_like_sys_id ''0123456789abcdef'' x \<longrightarrow>
            resolves_in_order b (user_lookups config x) st (request_resolve_user_id b config x st)
          \<and> resolves_in_order b (catalog_item_lookups config x) st (resolve_catalog_item_id b config x st))
       \<and> (\<not> looks_like_sys_id ''0123456789abcdefABCDEF'' x \<longrightarrow>
            resolves_in_order b (user_lookups config x) st (record_resolve_user_id b config x st))"
proof (intro conjI impI)
  assume n: "\<not> looks_like_sys_id ''0123456789abcdef'' x"
  show "resolves_in_order b (user_lookups config x) st (request_resolve_user_id b config x st)"
    by (rule lookup_fields_in_order[OF request_user_run[OF n] request_user_candidates _ assms]) simp
  show "resolves_in_order b (catalog_item_lookups config x) st (resolve_catalog_item_id b config x st)"
    by (rule lookup_fields_in_order[OF catalog_item_run[OF n] catalog_item_candidates _ assms]) simp
next
  assume n: "\<not> looks_like_sys_id ''0123456789abcdefABCDEF'' x"
  show "resolves_in_order b (user_lookups config x) st (record_resolve_user_id b config x st)"
    by (rule lookup_fields_in_order[OF record_user_run[OF n] request_user_candidates _ assms]) simp
qed

text \<open>
  C3. A lookup that raises \<^verbatim>\<open>requests.RequestException\<close> leaves one line in the log, names
  the field, and counts as no match for that field: the next candidate is looked up; and
  when every lookup either raised or came back empty the resolver returns \<^verbatim>\<open>None\<close> after
  the last candidate. The result of a resolver is a value in every case: no exception leaves it.
\<close>

theorem lookup_failures_are_logged_and_skipped:
  "(\<not> looks_like_sys_id ''0123456789abcdef'' x \<longrightarrow>
      tolerates_failures (user_log_line x) [''user_name'', ''email''] (user_lookups config x) st
        (request_resolve_user_id b config x st)
    \<and> tolerates_failures (catalog_item_log_line x) [''name'', ''sys_id'', ''short_description'']
        (catalog_item_lookups config x) st (resolve_catalog_item_id b config x st))
   \<and> (\<not> looks_like_sys_id ''0123456789abcdefABCDEF'' x \<longrightarrow>
      tolerates_failures (user_log_line x) [''user_name'', ''email''] (user_lookups config x) st
        (record_resolve_user_id b config x st))"
proof (intro conjI impI)
  assume n: "\<not> looks_like_sys_id ''0123456789abcdef'' x"
  show "tolerates_failures (user_log_line x) [''user_name'', ''email''] (user_lookups config x) st
        (request_resolve_user_id b config x st)"
    by (rule lookup_fields_tolerates[OF request_user_run[OF n] request_user_candidates]) simp
  show "tolerates_failures (catalog_item_log_line x) [''name'', ''sys_id'', ''short_description'']
        (catalog_item_lookups config x) st (resolve_catalog_item_id b config x st)"
    by (rule lookup_fields_tolerates[OF catalog_item_run[OF n] catalog_item_candidates]) simp
next
  assume n: "\<not> looks_like_sys_id ''0123456789abcdefABCDEF'' x"
  show "tolerates_failures (user_log_line x) [''user_name'', ''email''] (user_lookups config x) st
        (record_resolve_user_id b config x st)"
    by (rule lookup_fields_tolerates[OF record_user_run[OF n] request_user_candidates]) simp
qed

lemma jdoe_shape:
  "\<not> looks_like_sys_id ''0123456789abcdef'' ''jdoe''"
  "\<not> looks_like_sys_id ''0123456789abcdefABCDEF'' ''jdoe''"
  by (simp_all add: looks_like_sys_id_def)

lemma jdoe_backend_sys_ids: "records_have_sys_id jdoe_backend"
  by (auto simp: records_have_sys_id_def jdoe_backend_def split: if_splits)

lemma jdoe_resolved:
  "fst (request_resolve_user_id jdoe_backend cfg0 ''jdoe'' st0) = Some ''abc123''"
  by (simp add: request_resolve_user_id_def jdoe_shape requests_get_def send_list_def
        jdoe_backend_def st0_def cfg0_def logger_error_def)

lemma jdoe_log:
  "log (snd (request_resolve_user_id jdoe_backend cfg0 ''jdoe'' st0))
     = [''Failed to resolve user ID for user_name=jdoe: timeout'']"
  by (simp add: request_resolve_user_id_def jdoe_shape requests_get_def send_list_def
        jdoe_backend_def st0_def cfg0_def logger_error_def)

text \<open>
  The scenario of a user known by e-mail: the lookup by \<^verbatim>\<open>user_name\<close> fails, the lookup by
  \<^verbatim>\<open>email\<close> finds the record.
\<close>

theorem lookups_in_fixed_order_witness:
  "records_have_sys_id jdoe_backend
   \<and> \<not> looks_like_sys_id ''0123456789abcdef'' ''jdoe''
   \<and> \<not> looks_like_sys_id ''0123456789abcdefABCDEF'' ''jdoe''
   \<and> resolves_in_order jdoe_backend (user_lookups cfg0 ''jdoe'') st0
        (request_resolve_user_id jdoe_backend cfg0 ''jdoe'' st0)
   \<and> resolves_in_order jdoe_backend (catalog_item_lookups cfg0 ''jdoe'') st0
        (resolve_catalog_item_id jdoe_backend cfg0 ''jdoe'' st0)
   \<and> resolves_in_order jdoe_backend (user_lookups cfg0 ''jdoe'') st0
        (record_resolve_user_id jdoe_backend cfg0 ''jdoe'' st0)
   \<and> fst (request_resolve_user_id jdoe_backend cfg0 ''jdoe'' st0) = Some ''abc123''"
  using lookups_in_fixed_order_first_match_wins[OF jdoe_backend_sys_ids, of "''jdoe''" cfg0 st0]
    jdoe_backend_sys_ids jdoe_shape jdoe_resolved
  by blast

text \<open>The same scenario: the failed lookup by \<^verbatim>\<open>user_name\<close> is in the log.\<close>

theorem lookup_failures_witness:
  "\<not> looks_like_sys_id ''0123456789abcdef'' ''jdoe''
   \<and> \<not> looks_like_sys_id ''0123456789abcdefABCDEF'' ''jdoe''
   \<and> tolerates_failures (user_log_line ''jdoe'') [''user_name'', ''email''] (user_lookups cfg0 ''jdoe'') st0
        (request_resolve_user_id jdoe_backend cfg0 ''jdoe'' st0)
   \<and> tolerates_failures (catalog_item_log_line ''jdoe'') [''name'', ''sys_id'', ''short_description'']
        (catalog_item_lookups cfg0 ''jdoe'') st0 (resolve_catalog_item_id jdoe_backend cfg0 ''jdoe'' st0)
   \<and> tolerates_failures (user_log_line ''jdoe'') [''user_name'', ''email''] (user_lookups cfg0 ''jdoe'') st0
        (record_resolve_user_id jdoe_backend cfg0 ''jdoe'' st0)
   \<and> log (snd (request_resolve_user_id jdoe_backend cfg0 ''jdoe'' st0))
        = [''Failed to resolve user ID for user_name=jdoe: timeout'']"
  using lookup_failures_are_logged_and_skipped[of "''jdoe''" cfg0 st0 jdoe_backend]
    jdoe_shape jdoe_log
  by blast

lemma empty_shape:
  "\<not> looks_like_sys_id a []"
  by (simp add: looks_like_sys_id_def)

text \<open>
  C7, as stated, fails: no resolver rejects the empty string. Called with it, each resolver
  sends all its lookups (\<^verbatim>\<open>user_name=\<close> and \<^verbatim>\<open>email=\<close>; \<^verbatim>\<open>name=\<close>, \<^verbatim>\<open>sys_id=\<close> and
  \<^verbatim>\<open>short_descriptionLIKE\<close>) to a backend that finds nothing.
\<close>

theorem empty_identifier_is_looked_up:
  "map fst (trace (snd (request_resolve_user_id quiet_backend cfg0 [] st0))) = user_lookups cfg0 []
   \<and> length (trace (snd (request_resolve_user_id quiet_backend cfg0 [] st0))) = 2
   \<and> map fst (trace (snd (record_resolve_user_id quiet_backend cfg0 [] st0))) = user_lookups cfg0 []
   \<and> length (trace (snd (record_resolve_user_id quiet_backend cfg0 [] st0))) = 2
   \<and> map fst (trace (snd (resolve_catalog_item_id quiet_backend cfg0 [] st0))) = catalog_item_lookups cfg0 []
   \<and> length (trace (snd (resolve_catalog_item_id quiet_backend cfg0 [] st0))) = 3"
  by (simp add: request_resolve_user_id_def record_resolve_user_id_def resolve_catalog_item_id_def
        empty_shape requests_get_def send_list_def quiet_backend_def st0_def
        user_lookups_def catalog_item_lookups_def lookup_request_def cfg0_def)

lemma resolvers_look_up_empty:
  "new_exchanges st (snd (request_resolve_user_id b config [] st)) \<noteq> []"
  "new_exchanges st (snd (record_resolve_user_id b config [] st)) \<noteq> []"
  "new_exchanges st (snd (resolve_catalog_item_id b config [] st)) \<noteq> []"
proof -
  show "new_exchanges st (snd (request_resolve_user_id b config [] st)) \<noteq> []"
    by (rule lookup_fields_resolves(2)[OF request_user_run[OF empty_shape] request_user_candidates]) simp
  show "new_exchanges st (snd (record_resolve_user_id b config [] st)) \<noteq> []"
    by (rule lookup_fields_resolves(2)[OF record_user_run[OF empty_shape] request_user_candidates]) simp
  show "new_exchanges st (snd (resolve_catalog_item_id b config [] st)) \<noteq> []"
    by (rule lookup_fields_resolves(2)[OF catalog_item_run[OF empty_shape] catalog_item_candidates]) simp
qed

lemma send_item_new:
  "new_exchanges st (snd (send_item b req st)) = [(req, item_reply (table_item b (trace st) req))]"
  by (simp add: send_item_def new_exchanges_def Let_def)

lemma send_list_new:
  "new_exchanges st (snd (send_list b req st)) = [(req, list_reply (table_list b (trace st) req))]"
  by (simp add: send_list_def new_exchanges_def Let_def)

lemma new_exchanges_logger [simp]:
  "new_exchanges st (logger_error m st') = new_exchanges st st'"
  by (simp add: new_exchanges_def logger_error_def)

lemma sent_logger: "sent (logger_error m st) = sent st"
  by (simp add: sent_def logger_error_def)

lemma sent_send_item: "sent (snd (send_item b req st)) = sent st @ [req]"
  by (simp add: sent_def send_item_def Let_def)

lemma sent_send_list: "sent (snd (send_list b req st)) = sent st @ [req]"
  by (simp add: sent_def send_list_def Let_def)

lemma create_request_empty:
  "cr_requested_for p = [] \<Longrightarrow>
   sent (snd (create_request b config p st))
     = sent st @ [post_request (api_url config @ ''/table/sc_request'')
                    [(''state'', PStr (cr_state p)), (''approval'', PStr (cr_approval p))]]"
  by (simp add: create_request_def requests_post_def post_request_def case_prod_beta
        sent_send_item sent_logger Let_def split: sum.splits)

lemma create_problem_empty:
  "\<not> truthy (cp_assigned_to p) \<Longrightarrow>
   sent (snd (create_problem b config p st))
     = sent st @ [post_request (api_url config @ ''/table/problem'') (problem_data p)]"
  by (simp add: create_problem_def requests_post_def post_request_def problem_data_def case_prod_beta
        sent_send_item sent_logger Let_def split: sum.splits option.splits)

lemma create_item_request_empty_user:
  "cir_requested_for p = [] \<Longrightarrow>
   sent (snd (create_item_request b config p st))
     = (if cir_cat_item p = []
        then sent st @ [post_request (api_url config @ ''/table/sc_req_item'') (item_request_data p)]
        else sent (snd (resolve_catalog_item_id b config (cir_cat_item p) st))
             @ (if truthy (fst (resolve_catalog_item_id b config (cir_cat_item p) st))
                then [post_request (api_url config @ ''/table/sc_req_item'')
                        (AList.update ''cat_item''
                           (opt_val (fst (resolve_catalog_item_id b config (cir_cat_item p) st)))
                           (item_request_data p))]
                else []))"
  by (simp add: create_item_request_def requests_post_def post_request_def item_request_data_def
        case_prod_beta sent_send_item sent_logger Let_def split: sum.splits)

lemma create_item_request_empty_item:
  "cir_cat_item p = [] \<Longrightarrow>
   sent (snd (create_item_request b config p st))
     = (if cir_requested_for p = []
        then sent st @ [post_request (api_url config @ ''/table/sc_req_item'') (item_request_data p)]
        else sent (snd (request_resolve_user_id b config (cir_requested_for p) st))
             @ (if truthy (fst (request_resolve_user_id b config (cir_requested_for p) st))
                then [post_request (api_url config @ ''/table/sc_req_item'')
                        (AList.update ''requested_for''
                           (opt_val (fst (request_resolve_user_id b config (cir_requested_for p) st)))
                           (item_request_data p))]
                else []))"
  by (simp add: create_item_request_def requests_post_def post_request_def item_request_data_def
        case_prod_beta sent_send_item sent_logger Let_def split: sum.splits)

lemma list_item_requests_empty_user:
  "\<not> truthy (lir_requested_for p) \<Longrightarrow>
   sent (snd (list_item_requests b config p st))
     = (if truthy (lir_cat_item p)
        then sent (snd (resolve_catalog_item_id b config (the (lir_cat_item p)) st))
             @ [list_request (api_url config @ ''/table/sc_req_item'')
                  (with_query
                     (resolved_or_raw ''cat_item'' (the (lir_cat_item p))
                        (fst (resolve_catalog_item_id b config (the (lir_cat_item p)) st))
                      # item_requests_clauses p)
                     (item_requests_page p))]
        else sent st @ [list_request (api_url config @ ''/table/sc_req_item'')
                          (with_query (item_requests_clauses p) (item_requests_page p))])"
  by (simp add: list_item_requests_def requests_get_def list_request_def item_requests_clauses_def
        item_requests_page_def case_prod_beta sent_send_list sent_logger Let_def split: sum.splits)

lemma list_item_requests_empty_item:
  "\<not> truthy (lir_cat_item p) \<Longrightarrow>
   sent (snd (list_item_requests b config p st))
     = (if truthy (lir_requested_for p)
        then sent (snd (request_resolve_user_id b config (the (lir_requested_for p)) st))
             @ [list_request (api_url config @ ''/table/sc_req_item'')
                  (with_query
                     (resolved_or_raw ''requested_for'' (the (lir_requested_for p))
                        (fst (request_resolve_user_id b config (the (lir_requested_for p)) st))
                      # item_requests_clauses p)
                     (item_requests_page p))]
        else sent st @ [list_request (api_url config @ ''/table/sc_req_item'')
                          (with_query (item_requests_clauses p) (item_requests_page p))])"
  by (simp add: list_item_requests_def requests_get_def list_request_def item_requests_clauses_def
        item_requests_page_def case_prod_beta sent_send_list sent_logger Let_def split: sum.splits)

text \<open>
  C7, amended. A resolver called with the empty string looks it up like any other input
  that is not an id, on every backend. The tools of \<^verbatim>\<open>request_tools\<close> and
  \<^verbatim>\<open>record_tools\<close> test each identifier parameter for truthiness before they resolve it,
  so an empty identifier never reaches a resolver, whatever the other parameters are: the
  requests of the tool are those of the resolution of the other identifier, if one is given,
  followed by the tool's own request, whose payload or query has no entry for the empty
  identifier.
\<close>

theorem empty_identifier_is_never_passed_to_a_resolver:
  "new_exchanges st (snd (request_resolve_user_id b config [] st)) \<noteq> []
   \<and> new_exchanges st (snd (record_resolve_user_id b config [] st)) \<noteq> []
   \<and> new_exchanges st (snd (resolve_catalog_item_id b config [] st)) \<noteq> []
   \<and> (cr_requested_for p1 = [] \<longrightarrow>
        sent (snd (create_request b config p1 st))
          = sent st @ [post_request (api_url config @ ''/table/sc_request'')
                         [(''state'', PStr (cr_state p1)), (''approval'', PStr (cr_approval p1))]])
   \<and> (\<not> truthy (cp_assigned_to p2) \<longrightarrow>
        sent (snd (create_problem b config p2 st))
          = sent st @ [post_request (api_url config @ ''/table/problem'') (problem_data p2)])
   \<and> (cir_requested_for p3 = [] \<longrightarrow>
        sent (snd (create_item_request b config p3 st))
          = (if cir_cat_item p3 = []
             then sent st @ [post_request (api_url config @ ''/table/sc_req_item'') (item_request_data p3)]
             else sent (snd (resolve_catalog_item_id b config (cir_cat_item p3) st))
                  @ (if truthy (fst (resolve_catalog_item_id b config (cir_cat_item p3) st))
                     then [post_request (api_url config @ ''/table/sc_req_item'')
                             (AList.update ''cat_item''
                                (opt_val (fst (resolve_catalog_item_id b config (cir_cat_item p3) st)))
                                (item_request_data p3))]
                     else [])))
   \<and> (cir_cat_item p4 = [] \<longrightarrow>
        sent (snd (create_item_request b config p4 st))
          = (if cir_requested_for p4 = []
             then sent st @ [post_request (api_url config @ ''/table/sc_req_item'') (item_request_data p4)]
             else sent (snd (request_resolve_user_id b config (cir_requested_for p4) st))
                  @ (if truthy (fst (request_resolve_user_id b config (cir_requested_for p4) st))
                     then [post_request (api_url config @ ''/table/sc_req_item'')
                             (AList.update ''requested_for''
                                (opt_val (fst (request_resolve_user_id b config (cir_requested_for p4) st)))
                                (item_request_data p4))]
                     else [])))
   \<and> (\<not> truthy (lir_requested_for p5) \<longrightarrow>
        sent (snd (list_item_requests b config p5 st))
          = (if truthy (lir_cat_item p5)
             then sent (snd (resolve_catalog_item_id b config (the (lir_cat_item p5)) st))
                  @ [list_request (api_url config @ ''/table/sc_req_item'')
                       (with_query
                          (resolved_or_raw ''cat_item'' (the (lir_cat_item p5))
                             (fst (resolve_catalog_item_id b config (the (lir_cat_item p5)) st))
                           # item_requests_clauses p5)
                          (item_requests_page p5))]
             else sent st @ [list_request (api_url config @ ''/table/sc_req_item'')
                               (with_query (item_requests_clauses p5) (item_requests_page p5))]))
   \<and> (\<not> truthy (lir_cat_item p6) \<longrightarrow>
        sent (snd (list_item_requests b config p6 st))
          = (if truthy (lir_requested_for p6)
             then sent (snd (request_resolve_user_id b config (the (lir_requested_for p6)) st))
                  @ [list_request (api_url config @ ''/table/sc_req_item'')
                       (with_query
                          (resolved_or_raw ''requested_for'' (the (lir_requested_for p6))
                             (fst (request_resolve_user_id b config (the (lir_requested_for p6)) st))
                           # item_requests_clauses p6)
                          (item_requests_page p6))]
             else sent st @ [list_request (api_url config @ ''/table/sc_req_item'')
                               (with_query (item_requests_clauses p6) (item_requests_page p6))]))"
  using resolvers_look_up_empty[of st b config] create_request_empty[of p1 b config st]
    create_problem_empty[of p2 b config st]
    create_item_request_empty_user[of p3 b config st] create_item_request_empty_item[of p4 b config st]
    list_item_requests_empty_user[of p5 b config st] list_item_requests_empty_item[of p6 b config st]
  by blast

lemma lower_id_shape:
  "looks_like_sys_id ''0123456789abcdef'' ''0123456789abcdef0123456789abcdef''"
  by (simp add: looks_like_sys_id_def)

lemma laptop_shape:
  "\<not> looks_like_sys_id ''0123456789abcdef'' ''laptop''"
  by (simp add: looks_like_sys_id_def)

lemma lower_id_resolved:
  "resolve_catalog_item_id jdoe_backend cfg0 ''0123456789abcdef0123456789abcdef'' st0
     = (Some ''0123456789abcdef0123456789abcdef'', st0)"
  by (simp add: resolve_catalog_item_id_def lower_id_shape)

lemma jdoe_sent:
  "sent (snd (request_resolve_user_id jdoe_backend cfg0 ''jdoe'' st0)) = user_lookups cfg0 ''jdoe''"
  by (simp add: sent_def request_resolve_user_id_def jdoe_shape requests_get_def send_list_def
        jdoe_backend_def st0_def cfg0_def logger_error_def user_lookups_def lookup_request_def)

lemma laptop_unresolved:
  "fst (resolve_catalog_item_id jdoe_backend cfg0 ''laptop'' st0) = None"
  by (simp add: resolve_catalog_item_id_def laptop_shape requests_get_def send_list_def
        jdoe_backend_def st0_def cfg0_def logger_error_def)

lemma laptop_sent:
  "sent (snd (resolve_catalog_item_id jdoe_backend cfg0 ''laptop'' st0)) = catalog_item_lookups cfg0 ''laptop''"
  by (simp add: sent_def resolve_catalog_item_id_def laptop_shape requests_get_def send_list_def
        jdoe_backend_def st0_def cfg0_def logger_error_def catalog_item_lookups_def lookup_request_def)

lemma str_nat_ten: "str_nat 10 = ''10''" "str_nat 0 = ''0''"
  by (simp_all add: str_nat.simps)

lemma sent_st0: "sent st0 = []"
  by (simp add: sent_def st0_def)

text \<open>
  Tools called with one identifier empty on the backend that knows \<^verbatim>\<open>jdoe\<close> by e-mail:
  the lookups are those of the identifier that was given, and the request of the tool
  carries that one only.
\<close>

theorem empty_identifier_witness:
  "cr_requested_for blank_request = []
   \<and> \<not> truthy (cp_assigned_to blank_problem)
   \<and> cir_requested_for catalog_only_item_request = []
   \<and> cir_cat_item user_only_item_request = []
   \<and> \<not> truthy (lir_requested_for catalog_only_listing)
   \<and> \<not> truthy (lir_cat_item jdoe_requests)
   \<and> sent (snd (create_request jdoe_backend cfg0 blank_request st0))
        = [post_request (api_url cfg0 @ ''/table/sc_request'')
             [(''state'', PStr ''1''), (''approval'', PStr ''not requested'')]]
   \<and> sent (snd (create_problem jdoe_backend cfg0 blank_problem st0))
        = [post_request (api_url cfg0 @ ''/table/problem'')
             [(''short_description'', PStr ''Disk full''), (''urgency'', PStr ''3''),
              (''impact'', PStr ''3'')]]
   \<and> sent (snd (create_item_request jdoe_backend cfg0 catalog_only_item_request st0))
        = [post_request (api_url cfg0 @ ''/table/sc_req_item'')
             [(''state'', PStr ''1''), (''short_description'', PStr ''Laptop''),
              (''quantity'', PStr ''1''), (''cat_item'', PStr ''0123456789abcdef0123456789abcdef'')]]
   \<and> sent (snd (create_item_request jdoe_backend cfg0 user_only_item_request st0))
        = user_lookups cfg0 ''jdoe''
          @ [post_request (api_url cfg0 @ ''/table/sc_req_item'')
               [(''state'', PStr ''1''), (''short_description'', PStr ''Laptop''),
                (''quantity'', PStr ''1''), (''requested_for'', PStr ''abc123'')]]
   \<and> sent (snd (list_item_requests jdoe_backend cfg0 catalog_only_listing st0))
        = catalog_item_lookups cfg0 ''laptop''
          @ [list_request (api_url cfg0 @ ''/table/sc_req_item'')
               [(''sysparm_limit'', PStr ''10''), (''sysparm_offset'', PStr ''0''),
                (''sysparm_display_value'', PStr ''true''), (''sysparm_query'', PStr ''cat_item=laptop'')]]
   \<and> sent (snd (list_item_requests jdoe_backend cfg0 jdoe_requests st0))
        = user_lookups cfg0 ''jdoe''
          @ [list_request (api_url cfg0 @ ''/table/sc_req_item'')
               [(''sysparm_limit'', PStr ''10''), (''sysparm_offset'', PStr ''0''),
                (''sysparm_display_value'', PStr ''true''), (''sysparm_query'', PStr ''requested_for=abc123'')]]"
  using empty_identifier_is_never_passed_to_a_resolver
          [where st = st0 and b = jdoe_backend and config = cfg0 and ?p1.0 = blank_request
             and ?p2.0 = blank_problem and ?p3.0 = catalog_only_item_request
             and ?p4.0 = user_only_item_request and ?p5.0 = catalog_only_listing
             and ?p6.0 = jdoe_requests]
  by (simp add: blank_request_def blank_problem_def catalog_only_item_request_def
        user_only_item_request_def catalog_only_listing_def jdoe_requests_def
        lower_id_resolved jdoe_resolved jdoe_sent laptop_unresolved laptop_sent sent_st0
        problem_data_def item_request_data_def item_requests_page_def item_requests_clauses_def
        with_query_def resolved_or_raw_def str_int_def str_nat_ten)

section \<open>The query of the listing tools\<close>

lemma opt_clause_falsy: "\<not> truthy x \<Longrightarrow> opt_clause f x = []"
  by (cases x) auto

lemma opt_clause_truthy: "truthy x \<Longrightarrow> opt_clause f x = [f (the x)]"
  by (cases x) auto

lemma opt_clause_id: "opt_clause (\<lambda>v. v) a = (if truthy a then [the a] else [])"
  by (cases a) auto

lemma sent_query_requests_get:
  "sent_query (snd (requests_get b u qp st)) = map_of qp ''sysparm_query''"
  by (simp add: sent_query_def requests_get_def send_list_def Let_def)

lemma sent_query_logger: "sent_query (logger_error m st) = sent_query st"
  by (simp add: sent_query_def logger_error_def)

lemma map_of_with_query:
  "map_of qp ''sysparm_query'' = None \<Longrightarrow>
   map_of (with_query parts qp) ''sysparm_query''
     = (if parts = [] then None else Some (PStr (str_join ''^'' parts)))"
  by (simp add: with_query_def update_conv')



text \<open>
  The \<^verbatim>\<open>sysparm_query\<close> that each listing tool sends: the clauses that are present, in the
  order of the source, joined with \<^verbatim>\<open>^\<close>; no \<^verbatim>\<open>sysparm_query\<close> at all without a clause.
\<close>

lemma list_assets_sent_query:
  "sent_query (snd (list_assets ru b config p st))
     = (let clauses = list_assets_clauses (resolved_users ru config p st) p
        in if clauses = [] then None else Some (PStr (str_join ''^'' clauses)))"
proof -
  let ?qp = "[(''sysparm_limit'', PStr (str_int (la_limit p))),
              (''sysparm_offset'', PStr (str_int (la_offset p))),
              (''sysparm_display_value'', PStr ''true'')]"
  have none: "map_of ?qp ''sysparm_query'' = None" by simp
  show ?thesis
  proof (cases "la_assigned_to p")
    case None
    then show ?thesis
      by (simp add: list_assets_def Let_def list_assets_clauses_def resolved_users_def
            list_assets_other_clauses_def sent_query_logger sent_query_requests_get
            map_of_with_query[OF none] case_prod_beta split: sum.splits)
  next
    case (Some users)
    show ?thesis
    proof (cases users)
      case Nil
      with Some show ?thesis
        by (simp add: list_assets_def Let_def list_assets_clauses_def resolved_users_def
              list_assets_other_clauses_def sent_query_logger sent_query_requests_get
              map_of_with_query[OF none] case_prod_beta split: sum.splits)
    next
      case (Cons u us)
      with Some show ?thesis
        by (simp add: list_assets_def Let_def list_assets_clauses_def resolved_users_def
              list_assets_other_clauses_def sent_query_logger sent_query_requests_get
              map_of_with_query[OF none] case_prod_beta split: sum.splits)
    qed
  qed
qed

lemma list_knowledge_bases_sent_query:
  "sent_query (snd (list_knowledge_bases b config p st))
     = (let clauses = (case lkb_active p of None \<Rightarrow> [] | Some a \<Rightarrow> [''active='' @ str_bool_lower a])
                      @ opt_clause (\<lambda>v. ''titleLIKE'' @ v @ ''^ORdescriptionLIKE'' @ v) (lkb_query p)
        in if clauses = [] then None else Some (PStr (str_join ''^'' clauses)))"
proof -
  let ?qp = "[(''sysparm_limit'', PInt (lkb_limit p)),
              (''sysparm_offset'', PInt (lkb_offset p)),
              (''sysparm_display_value'', PStr ''true'')]"
  have none: "map_of ?qp ''sysparm_query'' = None" by simp
  show ?thesis
    by (simp add: list_knowledge_bases_def Let_def sent_query_def requests_get_def send_list_def
          logger_error_def map_of_with_query[OF none] case_prod_beta split: outcome.splits)
qed

lemma list_hardware_assets_sent_query:
  "sent_query (snd (list_hardware_assets ru b config p st))
     = (let clauses =
              (if truthy (lha_assigned_to p)
               then [resolved_or_raw ''assigned_to'' (the (lha_assigned_to p))
                       (fst (ru config (the (lha_assigned_to p)) st))]
               else [])
              @ hardware_other_clauses p
        in if clauses = [] then None else Some (PStr (str_join ''^'' clauses)))"
proof -
  let ?qp = "[(''sysparm_limit'', PStr (str_int (lha_limit p))),
              (''sysparm_offset'', PStr (str_int (lha_offset p))),
              (''sysparm_display_value'', PStr ''true'')]"
  have none: "map_of ?qp ''sysparm_query'' = None" by simp
  show ?thesis
    by (simp add: list_hardware_assets_def Let_def sent_query_logger sent_query_requests_get
          hardware_other_clauses_def map_of_with_query[OF none] case_prod_beta split: sum.splits)
qed

lemma list_item_requests_sent_query:
  "sent_query (snd (list_item_requests b config p st))
     = (let clauses =
              requested_for_clause b config p st
              @ cat_item_clause b config p
                  (after_resolution (request_resolve_user_id b) config (lir_requested_for p) st)
              @ item_requests_clauses p
        in if clauses = [] then None else Some (PStr (str_join ''^'' clauses)))"
proof -
  let ?qp = "[(''sysparm_limit'', PStr (str_int (lir_limit p))),
              (''sysparm_offset'', PStr (str_int (lir_offset p))),
              (''sysparm_display_value'', PStr ''true'')]"
  have none: "map_of ?qp ''sysparm_query'' = None" by simp
  show ?thesis
    by (simp add: list_item_requests_def Let_def sent_query_logger sent_query_requests_get
          requested_for_clause_def cat_item_clause_def after_resolution_def item_requests_clauses_def
          map_of_with_query[OF none] case_prod_beta split: sum.splits)
qed

text \<open>
  C5. The claim: a search term matched across several fields gives one clause
  \<^verbatim>\<open>ALIKEterm^ORBLIKEterm^ORCLIKEterm\<close> with no leading or trailing separator. The clause of
  \<^verbatim>\<open>list_knowledge_bases\<close> has this shape. The clause of \<^verbatim>\<open>list_assets\<close> and of
  \<^verbatim>\<open>list_hardware_assets\<close> begins with the separator \<^verbatim>\<open>^\<close>: for the search term
  \<^verbatim>\<open>mac\<close> the query sent starts with \<^verbatim>\<open>^asset_tagLIKEmac\<close>, and after another clause
  the separator is doubled.
\<close>

theorem search_clause_of_asset_tools_starts_with_separator:
  "sent_query (snd (list_assets no_resolver quiet_backend cfg0 mac_assets st0))
     = Some (PStr ''^asset_tagLIKEmac^ORdisplay_nameLIKEmac^ORserial_numberLIKEmac^ORmodelLIKEmac^ORshort_descriptionLIKEmac'')
   \<and> sent_query (snd (list_assets no_resolver quiet_backend cfg0 nyc_mac_assets st0))
     = Some (PStr ''location=NYC^^asset_tagLIKEmac^ORdisplay_nameLIKEmac^ORserial_numberLIKEmac^ORmodelLIKEmac^ORshort_descriptionLIKEmac'')
   \<and> sent_query (snd (list_hardware_assets no_resolver quiet_backend cfg0 mac_hardware st0))
     = Some (PStr ''^asset_tagLIKEmac^ORdisplay_nameLIKEmac^ORserial_numberLIKEmac^ORmodelLIKEmac'')
   \<and> sent_query (snd (list_knowledge_bases quiet_backend cfg0 mac_knowledge_bases st0))
     = Some (PStr ''titleLIKEmac^ORdescriptionLIKEmac'')"
  by (simp add: list_assets_sent_query list_hardware_assets_sent_query list_knowledge_bases_sent_query
        list_assets_clauses_def list_assets_other_clauses_def hardware_other_clauses_def
        resolved_users_def mac_assets_def nyc_mac_assets_def mac_hardware_def mac_knowledge_bases_def)


lemma directory_users:
  "resolved_users directory_resolver config all_filters st = [''abc123'']"
  "resolved_users directory_resolver config ghost_assets st = []"
  "resolved_users no_resolver config ghost_assets st = []"
  by (simp_all add: resolved_users_def all_filters_def ghost_assets_def directory_resolver_def
        no_resolver_def)

lemma listing_fields:
  "la_assigned_to ghost_assets = Some [''ghost'', ''nobody'']"
  "list_assets_other_clauses ghost_assets = []"
  "la_assigned_to all_filters = Some [''jdoe'', ''ghost'']"
  "list_assets_other_clauses all_filters = [''location=NYC'', ''display_nameLIKElaptop'']"
  "la_assigned_to nyc_laptops = None"
  by (simp_all add: ghost_assets_def all_filters_def nyc_laptops_def list_assets_other_clauses_def)


text \<open>
  C9. The query is a function of the parameters and of the ids that resolution returned, and
  of nothing else: the \<^verbatim>\<open>sysparm_query\<close> of \<^verbatim>\<open>list_knowledge_bases\<close> is the same for the
  same parameters whatever the backend, the configuration and the state (the history of
  exchanges and the log); that of \<^verbatim>\<open>list_assets\<close> is the same whenever the resolved users are
  the same, and in particular whenever no assignee is given.
\<close>

theorem query_construction_is_deterministic:
  "sent_query (snd (list_knowledge_bases b1 config1 kp st1))
     = sent_query (snd (list_knowledge_bases b2 config2 kp st2))
   \<and> (resolved_users ru1 config1 p st1 = resolved_users ru2 config2 p st2 \<longrightarrow>
        sent_query (snd (list_assets ru1 b1 config1 p st1))
          = sent_query (snd (list_assets ru2 b2 config2 p st2)))
   \<and> (la_assigned_to p0 = None \<longrightarrow>
        sent_query (snd (list_assets ru1 b1 config1 p0 st1))
          = sent_query (snd (list_assets ru2 b2 config2 p0 st2)))"
  by (simp add: list_knowledge_bases_sent_query list_assets_sent_query resolved_users_def)

text \<open>
  Two runs with the same parameters, one on a backend that finds nothing from the initial
  state, one on a backend that is down from a state with a history, with different resolvers
  that resolve the same users.
\<close>

theorem query_construction_witness:
  "resolved_users no_resolver cfg0 ghost_assets st0 = resolved_users directory_resolver cfg0 ghost_assets busy_state
   \<and> la_assigned_to nyc_laptops = None
   \<and> sent_query (snd (list_knowledge_bases quiet_backend cfg0 mac_knowledge_bases st0))
       = sent_query (snd (list_knowledge_bases down_backend cfg0 mac_knowledge_bases busy_state))
   \<and> sent_query (snd (list_assets no_resolver quiet_backend cfg0 ghost_assets st0))
       = sent_query (snd (list_assets directory_resolver down_backend cfg0 ghost_assets busy_state))
   \<and> sent_query (snd (list_assets no_resolver quiet_backend cfg0 nyc_laptops st0))
       = sent_query (snd (list_assets directory_resolver down_backend cfg0 nyc_laptops busy_state))"
  using query_construction_is_deterministic
          [where ?b1.0 = quiet_backend and ?b2.0 = down_backend and ?config1.0 = cfg0 and ?config2.0 = cfg0
             and kp = mac_knowledge_bases and ?st1.0 = st0 and ?st2.0 = busy_state
             and ?ru1.0 = no_resolver and ?ru2.0 = directory_resolver and p = ghost_assets
             and ?p0.0 = nyc_laptops]
  by (simp add: directory_users listing_fields)

section \<open>Assignees that do not resolve\<close>

lemma resolve_users_answers:
  "fst (resolve_users ru config users st) = map the (filter truthy (resolver_answers ru config users st))"
  by (induction users arbitrary: st) (simp_all add: case_prod_beta Let_def opt_clause_id)

lemma resolver_answers_length:
  "length (resolver_answers ru config users st) = length users"
  by (induction users arbitrary: st) (simp_all add: case_prod_beta Let_def)

lemma none_truthy: "list_all (\<lambda>a. \<not> truthy a) as \<Longrightarrow> filter truthy as = []"
  by (induction as) auto

lemma json_result_Inl_iff: "(json_result d out = Inl e) = (out = RequestException e)"
  by (cases out) auto

lemma list_reply_Raised_iff: "(list_reply out = Raised e) = (out = RequestException e)"
  by (cases out) auto

lemma requests_get_last:
  "snd (last (trace (snd (requests_get b u qp st)))) = list_reply (fst (requests_get b u qp st))"
  by (simp add: requests_get_def send_list_def Let_def)

lemma trace_logger: "trace (logger_error m st) = trace st"
  by (simp add: logger_error_def)

lemma list_assets_success:
  "(map_of (fst (list_assets ru b config p st)) ''success'' = Some (PBool False))
     = (\<exists>e. snd (last (trace (snd (list_assets ru b config p st)))) = Raised e)"
  by (cases "la_assigned_to p")
     (auto simp: list_assets_def Let_def case_prod_beta requests_get_last trace_logger
        list_reply_Raised_iff json_result_Inl_iff split: sum.splits list.splits)

lemma list_assets_assigned_query:
  assumes "la_assigned_to p = Some users" "users \<noteq> []"
  shows "sent_query (snd (list_assets ru b config p st))
     = Some (PStr (str_join ''^''
         ((''assigned_toIN'' @ str_join '','' (map the (filter truthy (resolver_answers ru config users st))))
          # list_assets_other_clauses p)))"
proof -
  from assms obtain u us where "users = u # us" by (cases users) auto
  with assms(1) show ?thesis
    by (simp add: list_assets_sent_query list_assets_clauses_def resolved_users_def
          resolve_users_answers Let_def del: resolve_users.simps resolver_answers.simps)
qed

text \<open>
  C10. In \<^verbatim>\<open>list_assets\<close> with a non-empty list of assignees, every entry is resolved; the
  membership clause is \<^verbatim>\<open>assigned_toIN\<close> followed by the ids of the entries that resolved,
  in order and separated by commas, so that an entry that does not resolve leaves no trace in
  it; the clause is the first of the query also when no entry resolves, and then it is
  \<^verbatim>\<open>assigned_toIN\<close> with nothing after it; and the result is a failure only when the
  request of the tool raised.
\<close>

theorem unresolved_assignees_are_dropped:
  assumes "la_assigned_to p = Some users" "users \<noteq> []"
  shows "length (resolver_answers ru config users st) = length users
    \<and> sent_query (snd (list_assets ru b config p st))
        = Some (PStr (str_join ''^''
            ((''assigned_toIN'' @ str_join '','' (map the (filter truthy (resolver_answers ru config users st))))
             # list_assets_other_clauses p)))
    \<and> (list_all (\<lambda>a. \<not> truthy a) (resolver_answers ru config users st) \<longrightarrow>
         sent_query (snd (list_assets ru b config p st))
           = Some (PStr (str_join ''^'' (''assigned_toIN'' # list_assets_other_clauses p))))
    \<and> ((map_of (fst (list_assets ru b config p st)) ''success'' = Some (PBool False))
         = (\<exists>e. snd (last (trace (snd (list_assets ru b config p st)))) = Raised e))"
  using list_assets_assigned_query[OF assms, of ru b config st] list_assets_success[of ru b config p st]
  by (simp add: resolver_answers_length none_truthy)

lemma ghost_answers:
  "resolver_answers directory_resolver config [''ghost'', ''nobody''] st = [None, None]"
  "resolver_answers directory_resolver config [''jdoe'', ''ghost''] st = [Some ''abc123'', None]"
  by (simp_all add: directory_resolver_def)

lemma ghost_assets_found:
  "fst (list_assets directory_resolver quiet_backend cfg0 ghost_assets st0)
     = [(''success'', PBool True), (''message'', PStr ''Found 0 assets''),
        (''assets'', PList []), (''count'', PInt 0)]"
  by (simp add: list_assets_def ghost_assets_def directory_resolver_def quiet_backend_def
        requests_get_def send_list_def Let_def str_nat.simps)

text \<open>
  Two assignees that the resolver does not know: the query is \<^verbatim>\<open>assigned_toIN\<close> and the
  tool succeeds. One that it knows and one that it does not: only the first is in the clause.
\<close>

theorem unresolved_assignees_witness:
  "la_assigned_to ghost_assets = Some [''ghost'', ''nobody'']
   \<and> [''ghost'', ''nobody''] \<noteq> ([] :: string list)
   \<and> list_all (\<lambda>a. \<not> truthy a) (resolver_answers directory_resolver cfg0 [''ghost'', ''nobody''] st0)
   \<and> sent_query (snd (list_assets directory_resolver quiet_backend cfg0 ghost_assets st0))
       = Some (PStr ''assigned_toIN'')
   \<and> map_of (fst (list_assets directory_resolver quiet_backend cfg0 ghost_assets st0)) ''success''
       = Some (PBool True)
   \<and> la_assigned_to all_filters = Some [''jdoe'', ''ghost'']
   \<and> sent_query (snd (list_assets directory_resolver quiet_backend cfg0 all_filters st0))
       = Some (PStr ''assigned_toINabc123^location=NYC^display_nameLIKElaptop'')"
  using unresolved_assignees_are_dropped
          [OF listing_fields(1), where ru = directory_resolver and config = cfg0 and st = st0
             and b = quiet_backend]
        unresolved_assignees_are_dropped
          [OF listing_fields(3), where ru = directory_resolver and config = cfg0 and st = st0
             and b = quiet_backend]
  by (simp add: ghost_answers ghost_assets_found listing_fields del: resolver_answers.simps)

section \<open>Identifiers that do not resolve\<close>

text \<open>
  C4, as stated, fails. \<^verbatim>\<open>list_item_requests\<close> does not report an identifier that does not
  resolve: it falls back on the input as it was given and proceeds. On a backend that finds
  nothing under \<^verbatim>\<open>jdoe\<close> the resolver returns \<^verbatim>\<open>None\<close>, the query sent is
  \<^verbatim>\<open>requested_for=jdoe\<close>, and the tool succeeds.
\<close>

theorem unresolved_user_is_sent_as_filter:
  "fst (request_resolve_user_id quiet_backend cfg0 ''jdoe'' st0) = None
   \<and> sent_query (snd (list_item_requests quiet_backend cfg0 jdoe_requests st0))
        = Some (PStr ''requested_for=jdoe'')
   \<and> map_of (fst (list_item_requests quiet_backend cfg0 jdoe_requests st0)) ''success''
        = Some (PBool True)"
proof -
  have r: "fst (request_resolve_user_id quiet_backend cfg0 ''jdoe'' st0) = None"
    by (simp add: request_resolve_user_id_def jdoe_shape requests_get_def send_list_def
          quiet_backend_def st0_def cfg0_def)
  have q: "sent_query (snd (list_item_requests quiet_backend cfg0 jdoe_requests st0))
        = Some (PStr ''requested_for=jdoe'')"
    by (simp add: list_item_requests_sent_query requested_for_clause_def cat_item_clause_def
          item_requests_clauses_def jdoe_requests_def r resolved_or_raw_def Let_def)
  have s: "map_of (fst (list_item_requests quiet_backend cfg0 jdoe_requests st0)) ''success''
        = Some (PBool True)"
    by (simp add: list_item_requests_def jdoe_requests_def Let_def case_prod_beta
          requests_get_def send_list_def quiet_backend_def)
  from r q s show ?thesis by simp
qed

lemma create_request_unresolved:
  "unresolved (request_resolve_user_id b) config (Some (cr_requested_for p)) st \<Longrightarrow>
   reports (''Could not resolve user: '' @ cr_requested_for p)
     (after_resolution (request_resolve_user_id b) config (Some (cr_requested_for p)) st)
     (create_request b config p st)"
  by (simp add: unresolved_def reports_def after_resolution_def create_request_def Let_def
        case_prod_beta)

lemma create_item_request_unresolved_user:
  "unresolved (request_resolve_user_id b) config (Some (cir_requested_for p)) st \<Longrightarrow>
   reports (''Could not resolve user: '' @ cir_requested_for p)
     (after_resolution (request_resolve_user_id b) config (Some (cir_requested_for p)) st)
     (create_item_request b config p st)"
  by (simp add: unresolved_def reports_def after_resolution_def create_item_request_def Let_def
        case_prod_beta)

lemma create_item_request_unresolved_item:
  "\<not> unresolved (request_resolve_user_id b) config (Some (cir_requested_for p)) st \<Longrightarrow>
   unresolved (resolve_catalog_item_id b) config (Some (cir_cat_item p))
     (after_resolution (request_resolve_user_id b) config (Some (cir_requested_for p)) st) \<Longrightarrow>
   reports (''Could not resolve catalog item: '' @ cir_cat_item p)
     (after_resolution (resolve_catalog_item_id b) config (Some (cir_cat_item p))
        (after_resolution (request_resolve_user_id b) config (Some (cir_requested_for p)) st))
     (create_item_request b config p st)"
  by (cases "cir_requested_for p = []")
     (simp_all add: unresolved_def reports_def after_resolution_def create_item_request_def Let_def
        case_prod_beta)

lemma create_problem_unresolved:
  "unresolved (record_resolve_user_id b) config (cp_assigned_to p) st \<Longrightarrow>
   \<exists>r. fst (create_problem b config p st) = Inr r
     \<and> reports (''Could not resolve user: '' @ the (cp_assigned_to p))
         (after_resolution (record_resolve_user_id b) config (cp_assigned_to p) st)
         (r, snd (create_problem b config p st))"
  by (simp add: unresolved_def reports_def after_resolution_def create_problem_def Let_def
        case_prod_beta)

lemma create_asset_unresolved:
  "unresolved ru config (ca_assigned_to p) st \<Longrightarrow>
   reports (''Could not resolve user: '' @ the (ca_assigned_to p))
     (after_resolution ru config (ca_assigned_to p) st)
     (create_asset ru b config p st)"
  by (simp add: unresolved_def reports_def after_resolution_def create_asset_def Let_def
        case_prod_beta)

lemma delete_asset_unresolved:
  "\<not> truthy (fst (ra config (da_asset_id p) st)) \<Longrightarrow>
   reports (''Could not find asset: '' @ da_asset_id p) (snd (ra config (da_asset_id p) st))
     (delete_asset ra b config p st)"
  by (simp add: reports_def delete_asset_def Let_def case_prod_beta)

lemma transfer_asset_unresolved_asset:
  "\<not> truthy (fst (ra config (ta_asset_id p) st)) \<Longrightarrow>
   reports (''Could not find asset: '' @ ta_asset_id p) (snd (ra config (ta_asset_id p) st))
     (transfer_asset ra ru b config p st)"
  by (simp add: reports_def transfer_asset_def Let_def case_prod_beta)

lemma transfer_asset_unresolved_user:
  "truthy (fst (ra config (ta_asset_id p) st)) \<Longrightarrow>
   \<not> truthy (fst (ru config (ta_new_assigned_to p) (snd (ra config (ta_asset_id p) st)))) \<Longrightarrow>
   reports (''Could not resolve user: '' @ ta_new_assigned_to p)
     (snd (ru config (ta_new_assigned_to p) (snd (ra config (ta_asset_id p) st))))
     (transfer_asset ra ru b config p st)"
  by (simp add: reports_def transfer_asset_def Let_def case_prod_beta)

lemma list_item_requests_unresolved_user:
  "unresolved (request_resolve_user_id b) config (lir_requested_for p) st \<Longrightarrow>
   sent_query (snd (list_item_requests b config p st))
     = Some (PStr (str_join ''^''
         ((''requested_for='' @ the (lir_requested_for p))
          # cat_item_clause b config p
              (after_resolution (request_resolve_user_id b) config (lir_requested_for p) st)
          @ item_requests_clauses p)))"
  by (simp add: unresolved_def list_item_requests_sent_query requested_for_clause_def
        resolved_or_raw_def Let_def)

lemma list_item_requests_unresolved_item:
  "unresolved (resolve_catalog_item_id b) config (lir_cat_item p)
     (after_resolution (request_resolve_user_id b) config (lir_requested_for p) st) \<Longrightarrow>
   sent_query (snd (list_item_requests b config p st))
     = Some (PStr (str_join ''^''
         (requested_for_clause b config p st
          @ (''cat_item='' @ the (lir_cat_item p)) # item_requests_clauses p)))"
  by (simp add: unresolved_def list_item_requests_sent_query cat_item_clause_def
        resolved_or_raw_def Let_def)

lemma list_hardware_assets_unresolved:
  "unresolved ru config (lha_assigned_to p) st \<Longrightarrow>
   sent_query (snd (list_hardware_assets ru b config p st))
     = Some (PStr (str_join ''^'' ((''assigned_to='' @ the (lha_assigned_to p)) # hardware_other_clauses p)))"
  by (simp add: unresolved_def list_hardware_assets_sent_query resolved_or_raw_def Let_def)

text \<open>
  C4, amended. When an identifier that was given does not resolve, the tools that create,
  delete and transfer (\<^verbatim>\<open>create_request\<close>, \<^verbatim>\<open>create_item_request\<close>, \<^verbatim>\<open>create_problem\<close>,
  \<^verbatim>\<open>create_asset\<close>, \<^verbatim>\<open>delete_asset\<close>, \<^verbatim>\<open>transfer_asset\<close>) return a failure whose message
  names the input (\<^verbatim>\<open>Could not resolve user\<close>, \<^verbatim>\<open>Could not resolve catalog item\<close>,
  \<^verbatim>\<open>Could not find asset\<close>) and stop in the state in which resolution ended, so that they
  send no request of their own and the input is in no payload. The listing tools
  \<^verbatim>\<open>list_item_requests\<close> and \<^verbatim>\<open>list_hardware_assets\<close> do not stop: the clause of the
  identifier is the field, \<^verbatim>\<open>=\<close> and the input as it was given, at its place in the query
  that is sent.
\<close>

theorem unresolved_identifier_is_reported_or_sent_as_given:
  "(unresolved (request_resolve_user_id b) config (Some (cr_requested_for p1)) st \<longrightarrow>
      reports (''Could not resolve user: '' @ cr_requested_for p1)
        (after_resolution (request_resolve_user_id b) config (Some (cr_requested_for p1)) st)
        (create_request b config p1 st))
   \<and> (unresolved (request_resolve_user_id b) config (Some (cir_requested_for p2)) st \<longrightarrow>
      reports (''Could not resolve user: '' @ cir_requested_for p2)
        (after_resolution (request_resolve_user_id b) config (Some (cir_requested_for p2)) st)
        (create_item_request b config p2 st))
   \<and> (\<not> unresolved (request_resolve_user_id b) config (Some (cir_requested_for p3)) st
      \<and> unresolved (resolve_catalog_item_id b) config (Some (cir_cat_item p3))
          (after_resolution (request_resolve_user_id b) config (Some (cir_requested_for p3)) st) \<longrightarrow>
      reports (''Could not resolve catalog item: '' @ cir_cat_item p3)
        (after_resolution (resolve_catalog_item_id b) config (Some (cir_cat_item p3))
           (after_resolution (request_resolve_user_id b) config (Some (cir_requested_for p3)) st))
        (create_item_request b config p3 st))
   \<and> (unresolved (record_resolve_user_id b) config (cp_assigned_to p4) st \<longrightarrow>
      (\<exists>r. fst (create_problem b config p4 st) = Inr r
         \<and> reports (''Could not resolve user: '' @ the (cp_assigned_to p4))
             (after_resolution (record_resolve_user_id b) config (cp_assigned_to p4) st)
             (r, snd (create_problem b config p4 st))))
   \<and> (unresolved ru config (ca_assigned_to p5) st \<longrightarrow>
      reports (''Could not resolve user: '' @ the (ca_assigned_to p5))
        (after_resolution ru config (ca_assigned_to p5) st)
        (create_asset ru b config p5 st))
   \<and> (\<not> truthy (fst (ra config (da_asset_id p6) st)) \<longrightarrow>
      reports (''Could not find asset: '' @ da_asset_id p6) (snd (ra config (da_asset_id p6) st))
        (delete_asset ra b config p6 st))
   \<and> (\<not> truthy (fst (ra config (ta_asset_id p7) st)) \<longrightarrow>
      reports (''Could not find asset: '' @ ta_asset_id p7) (snd (ra config (ta_asset_id p7) st))
        (transfer_asset ra ru b config p7 st))
   \<and> (truthy (fst (ra' config (ta_asset_id p8) st))
      \<and> \<not> truthy (fst (ru' config (ta_new_assigned_to p8) (snd (ra' config (ta_asset_id p8) st)))) \<longrightarrow>
      reports (''Could not resolve user: '' @ ta_new_assigned_to p8)
        (snd (ru' config (ta_new_assigned_to p8) (snd (ra' config (ta_asset_id p8) st))))
        (transfer_asset ra' ru' b config p8 st))
   \<and> (unresolved (request_resolve_user_id b) config (lir_requested_for p9) st \<longrightarrow>
      sent_query (snd (list_item_requests b config p9 st))
        = Some (PStr (str_join ''^''
            ((''requested_for='' @ the (lir_requested_for p9))
             # cat_item_clause b config p9
                 (after_resolution (request_resolve_user_id b) config (lir_requested_for p9) st)
             @ item_requests_clauses p9))))
   \<and> (unresolved (resolve_catalog_item_id b) config (lir_cat_item p10)
        (after_resolution (request_resolve_user_id b) config (lir_requested_for p10) st) \<longrightarrow>
      sent_query (snd (list_item_requests b config p10 st))
        = Some (PStr (str_join ''^''
            (requested_for_clause b config p10 st
             @ (''cat_item='' @ the (lir_cat_item p10)) # item_requests_clauses p10))))
   \<and> (unresolved ru config (lha_assigned_to p11) st \<longrightarrow>
      sent_query (snd (list_hardware_assets ru b config p11 st))
        = Some (PStr (str_join ''^''
            ((''assigned_to='' @ the (lha_assigned_to p11)) # hardware_other_clauses p11))))"
  using create_request_unresolved[of b config p1 st]
    create_item_request_unresolved_user[of b config p2 st]
    create_item_request_unresolved_item[of b config p3 st]
    create_problem_unresolved[of b config p4 st]
    create_asset_unresolved[of ru config p5 st b]
    delete_asset_unresolved[of ra config p6 st b]
    transfer_asset_unresolved_asset[of ra config p7 st ru b]
    transfer_asset_unresolved_user[of ra' config p8 st ru' b]
    list_item_requests_unresolved_user[of b config p9 st]
    list_item_requests_unresolved_item[of b config p10 st]
    list_hardware_assets_unresolved[of ru config p11 st b]
  by blast

lemma nobody_shape:
  "\<not> looks_like_sys_id ''0123456789abcdef'' ''nobody''"
  "\<not> looks_like_sys_id ''0123456789abcdefABCDEF'' ''nobody''"
  by (simp_all add: looks_like_sys_id_def)

lemma nobody_unresolved:
  "fst (request_resolve_user_id jdoe_backend cfg0 ''nobody'' st0) = None"
  "fst (record_resolve_user_id jdoe_backend cfg0 ''nobody'' st0) = None"
  by (simp_all add: request_resolve_user_id_def record_resolve_user_id_def nobody_shape
        requests_get_def send_list_def jdoe_backend_def st0_def cfg0_def logger_error_def)

lemma directory_answers:
  "directory_resolver config ''nobody'' st = (None, st)"
  "directory_resolver config ''jdoe'' st = (Some ''abc123'', st)"
  "directory_resolver config ''P1000'' st = (Some ''a1000'', st)"
  "no_resolver config x st = (None, st)"
  "after_resolution no_resolver config y st = st"
  by (simp_all add: directory_resolver_def no_resolver_def after_resolution_def)

lemma unresolved_fixtures:
  "unresolved (request_resolve_user_id jdoe_backend) cfg0 (Some (cr_requested_for nobody_request)) st0"
  "unresolved (request_resolve_user_id jdoe_backend) cfg0 (Some (cir_requested_for nobody_item_request)) st0"
  "\<not> unresolved (request_resolve_user_id jdoe_backend) cfg0 (Some (cir_requested_for laptop_item_request)) st0"
  "unresolved (resolve_catalog_item_id jdoe_backend) cfg0 (Some (cir_cat_item laptop_item_request))
     (after_resolution (request_resolve_user_id jdoe_backend) cfg0
        (Some (cir_requested_for laptop_item_request)) st0)"
  "unresolved (record_resolve_user_id jdoe_backend) cfg0 (cp_assigned_to nobody_problem) st0"
  "unresolved no_resolver cfg0 (ca_assigned_to new_asset) st0"
  "\<not> truthy (fst (no_resolver cfg0 (da_asset_id retire_asset) st0))"
  "\<not> truthy (fst (no_resolver cfg0 (ta_asset_id hand_over) st0))"
  "truthy (fst (directory_resolver cfg0 (ta_asset_id hand_over) st0))"
  "\<not> truthy (fst (no_resolver cfg0 (ta_new_assigned_to hand_over)
                      (snd (directory_resolver cfg0 (ta_asset_id hand_over) st0))))"
  "unresolved (request_resolve_user_id jdoe_backend) cfg0 (lir_requested_for nobody_requests) st0"
  "unresolved (resolve_catalog_item_id jdoe_backend) cfg0 (lir_cat_item laptop_requests)
     (after_resolution (request_resolve_user_id jdoe_backend) cfg0 (lir_requested_for laptop_requests) st0)"
  "unresolved no_resolver cfg0 (lha_assigned_to nobody_hardware) st0"
  by (simp_all add: unresolved_def after_resolution_def nobody_request_def nobody_item_request_def
        laptop_item_request_def nobody_problem_def new_asset_def retire_asset_def hand_over_def
        nobody_requests_def laptop_requests_def nobody_hardware_def nobody_unresolved
        laptop_unresolved directory_answers)

lemma unresolved_fixtures_fields:
  "cr_requested_for nobody_request = ''nobody''"
  "cir_requested_for nobody_item_request = ''nobody''"
  "cir_cat_item laptop_item_request = ''laptop''"
  "the (cp_assigned_to nobody_problem) = ''nobody''"
  "the (ca_assigned_to new_asset) = ''jdoe''"
  "da_asset_id retire_asset = ''P1000''"
  "ta_asset_id hand_over = ''P1000''"
  "ta_new_assigned_to hand_over = ''jdoe''"
  "the (lir_requested_for nobody_requests) = ''nobody''"
  "the (lir_cat_item laptop_requests) = ''laptop''"
  "the (lha_assigned_to nobody_hardware) = ''nobody''"
  "cat_item_clause b config nobody_requests st = []"
  "requested_for_clause b config laptop_requests st = []"
  "item_requests_clauses nobody_requests = []"
  "item_requests_clauses laptop_requests = []"
  "hardware_other_clauses nobody_hardware = []"
  by (simp_all add: nobody_request_def nobody_item_request_def
        laptop_item_request_def nobody_problem_def new_asset_def retire_asset_def hand_over_def
        nobody_requests_def laptop_requests_def nobody_hardware_def cat_item_clause_def
        requested_for_clause_def item_requests_clauses_def hardware_other_clauses_def)

text \<open>
  The tools called with a user, a catalog item and an asset that resolution does not find:
  each creating, deleting or transferring tool fails with its message; each listing tool
  sends the input as the filter value.
\<close>

theorem unresolved_identifier_witness:
  "unresolved (request_resolve_user_id jdoe_backend) cfg0 (Some (cr_requested_for nobody_request)) st0
   \<and> \<not> success (fst (create_request jdoe_backend cfg0 nobody_request st0))
   \<and> message (fst (create_request jdoe_backend cfg0 nobody_request st0)) = ''Could not resolve user: nobody''
   \<and> unresolved (request_resolve_user_id jdoe_backend) cfg0 (Some (cir_requested_for nobody_item_request)) st0
   \<and> message (fst (create_item_request jdoe_backend cfg0 nobody_item_request st0))
       = ''Could not resolve user: nobody''
   \<and> \<not> unresolved (request_resolve_user_id jdoe_backend) cfg0 (Some (cir_requested_for laptop_item_request)) st0
   \<and> unresolved (resolve_catalog_item_id jdoe_backend) cfg0 (Some (cir_cat_item laptop_item_request))
        (after_resolution (request_resolve_user_id jdoe_backend) cfg0
           (Some (cir_requested_for laptop_item_request)) st0)
   \<and> message (fst (create_item_request jdoe_backend cfg0 laptop_item_request st0))
       = ''Could not resolve catalog item: laptop''
   \<and> unresolved (record_resolve_user_id jdoe_backend) cfg0 (cp_assigned_to nobody_problem) st0
   \<and> (\<exists>r. fst (create_problem jdoe_backend cfg0 nobody_problem st0) = Inr r
          \<and> \<not> success r \<and> message r = ''Could not resolve user: nobody'')
   \<and> unresolved no_resolver cfg0 (ca_assigned_to new_asset) st0
   \<and> message (fst (create_asset no_resolver jdoe_backend cfg0 new_asset st0)) = ''Could not resolve user: jdoe''
   \<and> snd (create_asset no_resolver jdoe_backend cfg0 new_asset st0) = st0
   \<and> \<not> truthy (fst (no_resolver cfg0 (da_asset_id retire_asset) st0))
   \<and> message (fst (delete_asset no_resolver jdoe_backend cfg0 retire_asset st0)) = ''Could not find asset: P1000''
   \<and> \<not> truthy (fst (no_resolver cfg0 (ta_asset_id hand_over) st0))
   \<and> message (fst (transfer_asset no_resolver no_resolver jdoe_backend cfg0 hand_over st0))
       = ''Could not find asset: P1000''
   \<and> truthy (fst (directory_resolver cfg0 (ta_asset_id hand_over) st0))
   \<and> \<not> truthy (fst (no_resolver cfg0 (ta_new_assigned_to hand_over)
                        (snd (directory_resolver cfg0 (ta_asset_id hand_over) st0))))
   \<and> message (fst (transfer_asset directory_resolver no_resolver jdoe_backend cfg0 hand_over st0))
       = ''Could not resolve user: jdoe''
   \<and> unresolved (request_resolve_user_id jdoe_backend) cfg0 (lir_requested_for nobody_requests) st0
   \<and> sent_query (snd (list_item_requests jdoe_backend cfg0 nobody_requests st0))
       = Some (PStr ''requested_for=nobody'')
   \<and> unresolved (resolve_catalog_item_id jdoe_backend) cfg0 (lir_cat_item laptop_requests)
        (after_resolution (request_resolve_user_id jdoe_backend) cfg0 (lir_requested_for laptop_requests) st0)
   \<and> sent_query (snd (list_item_requests jdoe_backend cfg0 laptop_requests st0))
       = Some (PStr ''cat_item=laptop'')
   \<and> unresolved no_resolver cfg0 (lha_assigned_to nobody_hardware) st0
   \<and> sent_query (snd (list_hardware_assets no_resolver jdoe_backend cfg0 nobody_hardware st0))
       = Some (PStr ''assigned_to=nobody'')"
  using unresolved_identifier_is_reported_or_sent_as_given
          [where b = jdoe_backend and config = cfg0 and st = st0 and ?p1.0 = nobody_request
             and ?p2.0 = nobody_item_request and ?p3.0 = laptop_item_request
             and ?p4.0 = nobody_problem and ru = no_resolver and ?p5.0 = new_asset
             and ra = no_resolver and ?p6.0 = retire_asset and ?p7.0 = hand_over
             and ra' = directory_resolver and ru' = no_resolver and ?p8.0 = hand_over
             and ?p9.0 = nobody_requests and ?p10.0 = laptop_requests and ?p11.0 = nobody_hardware]
    unresolved_fixtures
  by (simp add: unresolved_fixtures_fields reports_def directory_answers) blast

section \<open>Transport failures of the requests of a tool\<close>

lemma Raised_item_reply_iff: "(Raised e = item_reply out) = (out = RequestException e)"
  by (cases out) auto

lemma Raised_list_reply_iff: "(Raised e = list_reply out) = (out = RequestException e)"
  by (cases out) auto

lemma new_exchanges_same: "new_exchanges st st = []"
  by (simp add: new_exchanges_def)

lemma case_json_result:
  "(case json_result d out of Inl e \<Rightarrow> g e | Inr r \<Rightarrow> f r)
     = (case out of RequestException e \<Rightarrow> g e | Response r \<Rightarrow> f r | NoResult body \<Rightarrow> f d)"
  by (cases out) auto

text \<open>Which exchanges of a run raised, request by request.\<close>

lemma raised_in_send_item:
  "((q, Raised e) \<in> set (new_exchanges st (snd (send_item b req st))))
     = (q = req \<and> fst (send_item b req st) = RequestException e)"
  by (auto simp: send_item_def new_exchanges_def Let_def Raised_item_reply_iff)

lemma raised_in_send_list:
  "((q, Raised e) \<in> set (new_exchanges st (snd (send_list b req st))))
     = (q = req \<and> fst (send_list b req st) = RequestException e)"
  by (auto simp: send_list_def new_exchanges_def Let_def Raised_list_reply_iff)

lemma send_item_length:
  "length (trace (snd (send_item b req st))) = Suc (length (trace st))"
  by (simp add: send_item_def Let_def)

lemma raised_after_send_item:
  "length (trace st) \<le> length (trace st') \<Longrightarrow>
   ((q, Raised e) \<in> set (new_exchanges st (snd (send_item b req st'))))
     = ((q, Raised e) \<in> set (new_exchanges st st')
        \<or> (q = req \<and> fst (send_item b req st') = RequestException e))"
  by (auto simp: send_item_def new_exchanges_def Let_def Raised_item_reply_iff)

lemma create_asset_own_failures:
  "own_failures_reported ''Failed to create asset: '' (after_resolution ru config (ca_assigned_to p) st)
     (create_asset ru b config p st)"
  by (cases "truthy (ca_assigned_to p)"; cases "truthy (fst (ru config (the (ca_assigned_to p)) st))";
      simp add: own_failures_reported_def after_resolution_def create_asset_def Let_def
        case_prod_beta requests_post_def raised_in_send_item new_exchanges_same
        case_json_result split: outcome.splits)

lemma create_problem_own_failures:
  "own_failures_reported_or_raised ''Failed to create problem: ''
     (after_resolution (record_resolve_user_id b) config (cp_assigned_to p) st)
     (create_problem b config p st)"
  by (cases "truthy (cp_assigned_to p)";
      cases "truthy (fst (record_resolve_user_id b config (the (cp_assigned_to p)) st))";
      simp add: own_failures_reported_or_raised_def after_resolution_def create_problem_def Let_def
        case_prod_beta requests_post_def raised_in_send_item new_exchanges_same
        case_json_result split: outcome.splits option.splits)

lemma create_request_own_failures:
  "own_failures_reported ''Failed to create request: ''
     (after_resolution (request_resolve_user_id b) config (Some (cr_requested_for p)) st)
     (create_request b config p st)"
  by (cases "cr_requested_for p = []";
      cases "truthy (fst (request_resolve_user_id b config (cr_requested_for p) st))";
      simp add: own_failures_reported_def after_resolution_def create_request_def Let_def
        case_prod_beta requests_post_def raised_in_send_item new_exchanges_same
        case_json_result split: outcome.splits)

lemma create_item_request_own_failures:
  "\<not> unresolved (request_resolve_user_id b) config (Some (cir_requested_for p)) st \<Longrightarrow>
   own_failures_reported ''Failed to create item request: ''
     (after_resolution (resolve_catalog_item_id b) config (Some (cir_cat_item p))
        (after_resolution (request_resolve_user_id b) config (Some (cir_requested_for p)) st))
     (create_item_request b config p st)"
  by (cases "cir_requested_for p = []"; cases "cir_cat_item p = []";
      cases "truthy (fst (resolve_catalog_item_id b config (cir_cat_item p)
               (after_resolution (request_resolve_user_id b) config (Some (cir_requested_for p)) st)))";
      simp add: own_failures_reported_def unresolved_def after_resolution_def create_item_request_def
        Let_def case_prod_beta requests_post_def raised_in_send_item new_exchanges_same
        case_json_result split: outcome.splits)

lemma delete_asset_own_failures:
  "own_failures_reported ''Failed to delete asset: '' (snd (ra config (da_asset_id p) st))
     (delete_asset ra b config p st)"
  by (cases "truthy (fst (ra config (da_asset_id p) st))";
      simp add: own_failures_reported_def delete_asset_def Let_def
        case_prod_beta requests_delete_def raised_in_send_item new_exchanges_same
        split: outcome.splits)

lemma transfer_asset_own_failures:
  "truthy (fst (ra config (ta_asset_id p) st)) \<Longrightarrow>
   own_failures_reported ''Failed to transfer asset: ''
     (snd (ru config (ta_new_assigned_to p) (snd (ra config (ta_asset_id p) st))))
     (transfer_asset ra ru b config p st)"
  by (cases "truthy (fst (ru config (ta_new_assigned_to p) (snd (ra config (ta_asset_id p) st))))";
      simp add: own_failures_reported_def transfer_asset_def Let_def
        case_prod_beta requests_patch_def raised_in_send_item new_exchanges_same
        case_json_result split: outcome.splits)

lemma list_knowledge_bases_own_failures:
  "own_failures_reported_dict ''Failed to list knowledge bases: '' st
     (list_knowledge_bases b config p st)"
  by (simp add: own_failures_reported_dict_def list_knowledge_bases_def Let_def
        case_prod_beta requests_get_def raised_in_send_list split: outcome.splits)

lemma list_hardware_assets_own_failures:
  "own_failures_reported_dict ''Failed to list hardware assets: ''
     (after_resolution ru config (lha_assigned_to p) st)
     (list_hardware_assets ru b config p st)"
  by (cases "truthy (lha_assigned_to p)";
      simp add: own_failures_reported_dict_def after_resolution_def list_hardware_assets_def Let_def
        case_prod_beta requests_get_def raised_in_send_list case_json_result split: outcome.splits)

lemma list_item_requests_own_failures:
  "own_failures_reported_dict ''Failed to list item requests: ''
     (after_resolution (resolve_catalog_item_id b) config (lir_cat_item p)
        (after_resolution (request_resolve_user_id b) config (lir_requested_for p) st))
     (list_item_requests b config p st)"
  by (cases "truthy (lir_requested_for p)"; cases "truthy (lir_cat_item p)";
      simp add: own_failures_reported_dict_def after_resolution_def list_item_requests_def Let_def
        case_prod_beta requests_get_def raised_in_send_list case_json_result split: outcome.splits)

lemma list_assets_own_failures:
  "own_failures_reported_dict ''Failed to list assets: ''
     (after_users_resolution ru config (la_assigned_to p) st)
     (list_assets ru b config p st)"
proof (cases "la_assigned_to p")
  case None
  then show ?thesis
    by (simp add: own_failures_reported_dict_def after_users_resolution_def list_assets_def Let_def
          case_prod_beta requests_get_def raised_in_send_list case_json_result split: outcome.splits)
next
  case (Some users)
  show ?thesis
  proof (cases users)
    case Nil
    with Some show ?thesis
      by (simp add: own_failures_reported_dict_def after_users_resolution_def list_assets_def Let_def
            case_prod_beta requests_get_def raised_in_send_list case_json_result split: outcome.splits)
  next
    case (Cons u us)
    with Some show ?thesis
      by (simp add: own_failures_reported_dict_def after_users_resolution_def list_assets_def Let_def
            case_prod_beta requests_get_def raised_in_send_list case_json_result
            del: resolve_users.simps split: outcome.splits)
  qed
qed

lemma submit_hardware_order_own_failures:
  "own_failures_reported_dict ''Failed to submit hardware order: '' st
     (submit_hardware_order b config p st)"
  by (simp add: own_failures_reported_dict_def submit_hardware_order_def hardware_order_failed_def
        Let_def case_prod_beta requests_post_def requests_get_item_def raised_in_send_item
        raised_after_send_item send_item_length case_json_result split: outcome.splits)
     auto

text \<open>
  C8, as stated, fails. A transport failure of a lookup of identifier resolution is caught in
  the resolver and is not converted into a failure result: on the backend on which the lookup
  of \<^verbatim>\<open>jdoe\<close> by \<^verbatim>\<open>user_name\<close> times out and the lookup by \<^verbatim>\<open>email\<close> finds the user,
  \<^verbatim>\<open>create_problem\<close> with this assignee returns a result whose \<^verbatim>\<open>success\<close> is true.
\<close>

theorem lookup_failure_does_not_fail_the_operation:
  "(lookup_request (api_url cfg0 @ ''/table/sys_user'') ''user_name=jdoe'', Raised ''timeout'')
      \<in> set (trace (snd (create_problem jdoe_backend cfg0 jdoe_problem st0)))
   \<and> fst (create_problem jdoe_backend cfg0 jdoe_problem st0)
      = Inr \<lparr>success = True,
             message = ''Problem created successfully. The sys_id of the problem is: new1'',
             problem_id = Some ''new1'', problem_number = Some ''N0001''\<rparr>"
  by (simp add: create_problem_def jdoe_problem_def record_resolve_user_id_def jdoe_shape
        requests_get_def requests_post_def send_list_def send_item_def jdoe_backend_def
        st0_def cfg0_def logger_error_def lookup_request_def Let_def)

text \<open>
  C8, amended. In each of \<^verbatim>\<open>create_asset\<close>, \<^verbatim>\<open>create_problem\<close>,
  \<^verbatim>\<open>submit_hardware_order\<close>, \<^verbatim>\<open>create_request\<close>, \<^verbatim>\<open>create_item_request\<close>,
  \<^verbatim>\<open>delete_asset\<close>, \<^verbatim>\<open>transfer_asset\<close>, \<^verbatim>\<open>list_knowledge_bases\<close>,
  \<^verbatim>\<open>list_hardware_assets\<close>, \<^verbatim>\<open>list_item_requests\<close> and \<^verbatim>\<open>list_assets\<close>, a transport
  failure of a request of the tool itself, that is of any request sent after identifier
  resolution, is converted into the result of the tool: \<^verbatim>\<open>success\<close> is false and the message
  is \<^verbatim>\<open>Failed to ...: \<close> followed by the text of the exception. (A transport failure of a
  lookup of identifier resolution is logged and skipped by the resolver.)
\<close>

theorem transport_failures_become_failure_results:
  "own_failures_reported ''Failed to create asset: '' (after_resolution ru config (ca_assigned_to pa) st)
     (create_asset ru b config pa st)
   \<and> own_failures_reported_or_raised ''Failed to create problem: ''
       (after_resolution (record_resolve_user_id b) config (cp_assigned_to pp) st)
       (create_problem b config pp st)
   \<and> own_failures_reported_dict ''Failed to submit hardware order: '' st
       (submit_hardware_order b config po st)
   \<and> own_failures_reported ''Failed to create request: ''
       (after_resolution (request_resolve_user_id b) config (Some (cr_requested_for pr)) st)
       (create_request b config pr st)
   \<and> (\<not> unresolved (request_resolve_user_id b) config (Some (cir_requested_for pc)) st \<longrightarrow>
        own_failures_reported ''Failed to create item request: ''
          (after_resolution (resolve_catalog_item_id b) config (Some (cir_cat_item pc))
             (after_resolution (request_resolve_user_id b) config (Some (cir_requested_for pc)) st))
          (create_item_request b config pc st))
   \<and> own_failures_reported ''Failed to delete asset: '' (snd (ra config (da_asset_id pd) st))
       (delete_asset ra b config pd st)
   \<and> (truthy (fst (ra config (ta_asset_id pt) st)) \<longrightarrow>
        own_failures_reported ''Failed to transfer asset: ''
          (snd (ru config (ta_new_assigned_to pt) (snd (ra config (ta_asset_id pt) st))))
          (transfer_asset ra ru b config pt st))
   \<and> own_failures_reported_dict ''Failed to list knowledge bases: '' st
       (list_knowledge_bases b config pk st)
   \<and> own_failures_reported_dict ''Failed to list hardware assets: ''
       (after_resolution ru' config (lha_assigned_to ph) st)
       (list_hardware_assets ru' b config ph st)
   \<and> own_failures_reported_dict ''Failed to list item requests: ''
       (after_resolution (resolve_catalog_item_id b) config (lir_cat_item pq)
          (after_resolution (request_resolve_user_id b) config (lir_requested_for pq) st))
       (list_item_requests b config pq st)
   \<and> own_failures_reported_dict ''Failed to list assets: ''
       (after_users_resolution ru' config (la_assigned_to pl) st)
       (list_assets ru' b config pl st)"
  using create_asset_own_failures[of ru config pa st b] create_problem_own_failures[of b config pp st]
    submit_hardware_order_own_failures[of st b config po] create_request_own_failures[of b config pr st]
    create_item_request_own_failures[of b config pc st] delete_asset_own_failures[of ra config pd st b]
    transfer_asset_own_failures[of ra config pt st ru b] list_knowledge_bases_own_failures[of st b config pk]
    list_hardware_assets_own_failures[of ru' config ph st b] list_item_requests_own_failures[of b config pq st]
    list_assets_own_failures[of ru' config pl st b]
  by blast

lemma down_reference_states:
  "after_resolution directory_resolver cfg0 (ca_assigned_to new_asset) st0 = st0"
  "after_resolution (record_resolve_user_id down_backend) cfg0 (cp_assigned_to blank_problem) st0 = st0"
  "after_resolution (request_resolve_user_id down_backend) cfg0 (Some (cr_requested_for blank_request)) st0 = st0"
  "after_resolution (resolve_catalog_item_id down_backend) cfg0 (Some (cir_cat_item catalog_only_item_request))
     (after_resolution (request_resolve_user_id down_backend) cfg0
        (Some (cir_requested_for catalog_only_item_request)) st0) = st0"
  "snd (directory_resolver cfg0 (da_asset_id retire_asset) st0) = st0"
  "snd (directory_resolver cfg0 (ta_new_assigned_to hand_over)
          (snd (directory_resolver cfg0 (ta_asset_id hand_over) st0))) = st0"
  "after_resolution no_resolver cfg0 (lha_assigned_to mac_hardware) st0 = st0"
  "after_resolution (resolve_catalog_item_id down_backend) cfg0 (lir_cat_item recent_requests)
     (after_resolution (request_resolve_user_id down_backend) cfg0 (lir_requested_for recent_requests) st0) = st0"
  "after_users_resolution no_resolver cfg0 (la_assigned_to nyc_laptops) st0 = st0"
  by (simp_all add: after_resolution_def after_users_resolution_def directory_resolver_def
        no_resolver_def new_asset_def blank_problem_def blank_request_def
        catalog_only_item_request_def retire_asset_def hand_over_def mac_hardware_def
        recent_requests_def nyc_laptops_def resolve_catalog_item_id_def lower_id_shape)

lemma down_guards:
  "\<not> unresolved (request_resolve_user_id down_backend) cfg0
       (Some (cir_requested_for catalog_only_item_request)) st0"
  "truthy (fst (directory_resolver cfg0 (ta_asset_id hand_over) st0))"
  by (simp_all add: unresolved_def catalog_only_item_request_def hand_over_def directory_resolver_def)

lemma down_create_asset:
  "\<exists>q. (q, Raised ''connection refused'')
     \<in> set (new_exchanges st0 (snd (create_asset directory_resolver down_backend cfg0 new_asset st0)))"
  by (simp add: create_asset_def new_asset_def directory_resolver_def requests_post_def send_item_def
        new_exchanges_def down_backend_def st0_def logger_error_def Let_def)

lemma down_create_problem:
  "\<exists>q. (q, Raised ''connection refused'')
     \<in> set (new_exchanges st0 (snd (create_problem down_backend cfg0 blank_problem st0)))"
  by (simp add: create_problem_def blank_problem_def requests_post_def send_item_def
        new_exchanges_def down_backend_def st0_def logger_error_def Let_def)

lemma down_submit_hardware_order:
  "\<exists>q. (q, Raised ''connection refused'')
     \<in> set (new_exchanges st0 (snd (submit_hardware_order down_backend cfg0 laptop_order st0)))"
  by (simp add: submit_hardware_order_def hardware_order_failed_def laptop_order_def
        requests_get_item_def send_item_def new_exchanges_def down_backend_def st0_def
        logger_error_def Let_def)

lemma down_create_request:
  "\<exists>q. (q, Raised ''connection refused'')
     \<in> set (new_exchanges st0 (snd (create_request down_backend cfg0 blank_request st0)))"
  by (simp add: create_request_def blank_request_def requests_post_def send_item_def
        new_exchanges_def down_backend_def st0_def logger_error_def Let_def)

lemma down_create_item_request:
  "\<exists>q. (q, Raised ''connection refused'')
     \<in> set (new_exchanges st0 (snd (create_item_request down_backend cfg0 catalog_only_item_request st0)))"
  by (simp add: create_item_request_def catalog_only_item_request_def resolve_catalog_item_id_def
        lower_id_shape requests_post_def send_item_def new_exchanges_def down_backend_def st0_def
        logger_error_def Let_def)

lemma down_delete_asset:
  "\<exists>q. (q, Raised ''connection refused'')
     \<in> set (new_exchanges st0 (snd (delete_asset directory_resolver down_backend cfg0 retire_asset st0)))"
  by (simp add: delete_asset_def retire_asset_def directory_resolver_def requests_delete_def
        send_item_def new_exchanges_def down_backend_def st0_def logger_error_def Let_def)

lemma down_transfer_asset:
  "\<exists>q. (q, Raised ''connection refused'')
     \<in> set (new_exchanges st0
          (snd (transfer_asset directory_resolver directory_resolver down_backend cfg0 hand_over st0)))"
  by (simp add: transfer_asset_def hand_over_def directory_resolver_def requests_patch_def
        send_item_def new_exchanges_def down_backend_def st0_def logger_error_def Let_def)

lemma down_list_knowledge_bases:
  "\<exists>q. (q, Raised ''connection refused'')
     \<in> set (new_exchanges st0 (snd (list_knowledge_bases down_backend cfg0 mac_knowledge_bases st0)))"
  by (simp add: list_knowledge_bases_def mac_knowledge_bases_def requests_get_def send_list_def
        new_exchanges_def down_backend_def st0_def logger_error_def Let_def)

lemma down_list_hardware_assets:
  "\<exists>q. (q, Raised ''connection refused'')
     \<in> set (new_exchanges st0 (snd (list_hardware_assets no_resolver down_backend cfg0 mac_hardware st0)))"
  by (simp add: list_hardware_assets_def mac_hardware_def no_resolver_def requests_get_def send_list_def
        new_exchanges_def down_backend_def st0_def logger_error_def Let_def)

lemma down_list_item_requests:
  "\<exists>q. (q, Raised ''connection refused'')
     \<in> set (new_exchanges st0 (snd (list_item_requests down_backend cfg0 recent_requests st0)))"
  by (simp add: list_item_requests_def recent_requests_def requests_get_def send_list_def
        new_exchanges_def down_backend_def st0_def logger_error_def Let_def)

lemma down_list_assets:
  "\<exists>q. (q, Raised ''connection refused'')
     \<in> set (new_exchanges st0 (snd (list_assets no_resolver down_backend cfg0 nyc_laptops st0)))"
  by (simp add: list_assets_def nyc_laptops_def requests_get_def send_list_def
        new_exchanges_def down_backend_def st0_def logger_error_def Let_def)

lemma reported:
  "own_failures_reported prefix st1 res \<Longrightarrow>
   \<exists>q. (q, Raised e) \<in> set (new_exchanges st1 (snd res)) \<Longrightarrow>
   \<not> success (fst res) \<and> message (fst res) = prefix @ e"
  by (auto simp: own_failures_reported_def)

lemma reported_dict:
  "own_failures_reported_dict prefix st1 res \<Longrightarrow>
   \<exists>q. (q, Raised e) \<in> set (new_exchanges st1 (snd res)) \<Longrightarrow>
   map_of (fst res) ''success'' = Some (PBool False)
   \<and> map_of (fst res) ''message'' = Some (PStr (prefix @ e))"
  by (auto simp: own_failures_reported_dict_def)

lemma reported_or_raised:
  "own_failures_reported_or_raised prefix st1 res \<Longrightarrow>
   \<exists>q. (q, Raised e) \<in> set (new_exchanges st1 (snd res)) \<Longrightarrow>
   \<exists>r. fst res = Inr r \<and> \<not> success r \<and> message r = prefix @ e"
  by (auto simp: own_failures_reported_or_raised_def)

text \<open>
  On a backend that is down, with identifiers that resolve without a lookup: the request of
  each tool raises, and each tool returns its failure with the text of the exception.
\<close>

theorem transport_failures_witness:
  "(\<exists>q. (q, Raised ''connection refused'')
       \<in> set (new_exchanges st0 (snd (create_asset directory_resolver down_backend cfg0 new_asset st0))))
   \<and> \<not> success (fst (create_asset directory_resolver down_backend cfg0 new_asset st0))
   \<and> message (fst (create_asset directory_resolver down_backend cfg0 new_asset st0))
       = ''Failed to create asset: '' @ ''connection refused''
   \<and> (\<exists>q. (q, Raised ''connection refused'')
       \<in> set (new_exchanges st0 (snd (create_problem down_backend cfg0 blank_problem st0))))
   \<and> (\<exists>r. fst (create_problem down_backend cfg0 blank_problem st0) = Inr r \<and> \<not> success r
          \<and> message r = ''Failed to create problem: '' @ ''connection refused'')
   \<and> (\<exists>q. (q, Raised ''connection refused'')
       \<in> set (new_exchanges st0 (snd (submit_hardware_order down_backend cfg0 laptop_order st0))))
   \<and> map_of (fst (submit_hardware_order down_backend cfg0 laptop_order st0)) ''success'' = Some (PBool False)
   \<and> map_of (fst (submit_hardware_order down_backend cfg0 laptop_order st0)) ''message''
       = Some (PStr (''Failed to submit hardware order: '' @ ''connection refused''))
   \<and> message (fst (create_request down_backend cfg0 blank_request st0))
       = ''Failed to create request: '' @ ''connection refused''
   \<and> \<not> unresolved (request_resolve_user_id down_backend) cfg0
         (Some (cir_requested_for catalog_only_item_request)) st0
   \<and> message (fst (create_item_request down_backend cfg0 catalog_only_item_request st0))
       = ''Failed to create item request: '' @ ''connection refused''
   \<and> message (fst (delete_asset directory_resolver down_backend cfg0 retire_asset st0))
       = ''Failed to delete asset: '' @ ''connection refused''
   \<and> truthy (fst (directory_resolver cfg0 (ta_asset_id hand_over) st0))
   \<and> message (fst (transfer_asset directory_resolver directory_resolver down_backend cfg0 hand_over st0))
       = ''Failed to transfer asset: '' @ ''connection refused''
   \<and> map_of (fst (list_knowledge_bases down_backend cfg0 mac_knowledge_bases st0)) ''message''
       = Some (PStr (''Failed to list knowledge bases: '' @ ''connection refused''))
   \<and> map_of (fst (list_hardware_assets no_resolver down_backend cfg0 mac_hardware st0)) ''message''
       = Some (PStr (''Failed to list hardware assets: '' @ ''connection refused''))
   \<and> map_of (fst (list_item_requests down_backend cfg0 recent_requests st0)) ''message''
       = Some (PStr (''Failed to list item requests: '' @ ''connection refused''))
   \<and> map_of (fst (list_assets no_resolver down_backend cfg0 nyc_laptops st0)) ''message''
       = Some (PStr (''Failed to list assets: '' @ ''connection refused''))"
proof -
  note run = transport_failures_become_failure_results
               [where b = down_backend and config = cfg0 and st = st0 and ru = directory_resolver
                  and ra = directory_resolver and ru' = no_resolver and pa = new_asset
                  and pp = blank_problem and po = laptop_order and pr = blank_request
                  and pc = catalog_only_item_request and pd = retire_asset and pt = hand_over
                  and pk = mac_knowledge_bases and ph = mac_hardware and pq = recent_requests
                  and pl = nyc_laptops,
                unfolded down_reference_states]
  from run down_guards have
    a: "own_failures_reported ''Failed to create asset: '' st0
          (create_asset directory_resolver down_backend cfg0 new_asset st0)" and
    b: "own_failures_reported_or_raised ''Failed to create problem: '' st0
          (create_problem down_backend cfg0 blank_problem st0)" and
    c: "own_failures_reported_dict ''Failed to submit hardware order: '' st0
          (submit_hardware_order down_backend cfg0 laptop_order st0)" and
    d: "own_failures_reported ''Failed to create request: '' st0
          (create_request down_backend cfg0 blank_request st0)" and
    e: "own_failures_reported ''Failed to create item request: '' st0
          (create_item_request down_backend cfg0 catalog_only_item_request st0)" and
    f: "own_failures_reported ''Failed to delete asset: '' st0
          (delete_asset directory_resolver down_backend cfg0 retire_asset st0)" and
    g: "own_failures_reported ''Failed to transfer asset: '' st0
          (transfer_asset directory_resolver directory_resolver down_backend cfg0 hand_over st0)" and
    h: "own_failures_reported_dict ''Failed to list knowledge bases: '' st0
          (list_knowledge_bases down_backend cfg0 mac_knowledge_bases st0)" and
    i: "own_failures_reported_dict ''Failed to list hardware assets: '' st0
          (list_hardware_assets no_resolver down_backend cfg0 mac_hardware st0)" and
    j: "own_failures_reported_dict ''Failed to list item requests: '' st0
          (list_item_requests down_backend cfg0 recent_requests st0)" and
    k: "own_failures_reported_dict ''Failed to list assets: '' st0
          (list_assets no_resolver down_backend cfg0 nyc_laptops st0)"
    by simp_all
  from reported[OF a down_create_asset]
    reported_or_raised[OF b down_create_problem]
    reported_dict[OF c down_submit_hardware_order]
    reported[OF d down_create_request]
    reported[OF e down_create_item_request]
    reported[OF f down_delete_asset]
    reported[OF g down_transfer_asset]
    reported_dict[OF h down_list_knowledge_bases]
    reported_dict[OF i down_list_hardware_assets]
    reported_dict[OF j down_list_item_requests]
    reported_dict[OF k down_list_assets]
    down_guards down_create_asset down_create_problem down_submit_hardware_order
  show ?thesis by simp
qed

end
